theory Spec2Isabelle
  imports Complex_Main
begin

section \<open>Quantities, carbon values and dictionaries\<close>

text \<open>
  The component models of \<^verbatim>\<open>act/core\<close> compute with pint quantities. The unit module is an
  external collaborator of the models; a quantity is represented here by its magnitude in
  base units (kg, m, s) and the exponents of its dimension, which is what pint compares
  when it checks or equates two quantities. Magnitudes are exact rationals: the rounding
  of Python floats is not part of this development.
\<close>

record dimension =
  mass_exp :: int
  length_exp :: int
  time_exp :: int

record quantity =
  magnitude :: rat
  dim :: dimension

definition dim_mul :: "dimension \<Rightarrow> dimension \<Rightarrow> dimension" where
  "dim_mul a b =
     \<lparr>mass_exp = mass_exp a + mass_exp b,
      length_exp = length_exp a + length_exp b,
      time_exp = time_exp a + time_exp b\<rparr>"

text \<open>\<^verbatim>\<open>a * b\<close> on two quantities: never fails, the dimensions multiply.\<close>

definition qmul :: "quantity \<Rightarrow> quantity \<Rightarrow> quantity" where
  "qmul a b = \<lparr>magnitude = magnitude a * magnitude b, dim = dim_mul (dim a) (dim b)\<rparr>"

text \<open>\<^verbatim>\<open>a * n\<close> for a quantity and a Python int.\<close>

definition qscale :: "quantity \<Rightarrow> int \<Rightarrow> quantity" where
  "qscale a n = \<lparr>magnitude = magnitude a * of_int n, dim = dim a\<rparr>"

text \<open>The unit objects the models import: \<^verbatim>\<open>kg\<close>, \<^verbatim>\<open>g\<close> and \<^verbatim>\<open>mm2\<close>.\<close>

definition kg :: quantity where
  "kg = \<lparr>magnitude = 1, dim = \<lparr>mass_exp = 1, length_exp = 0, time_exp = 0\<rparr>\<rparr>"

definition g :: quantity where
  "g = \<lparr>magnitude = 1 / 1000, dim = \<lparr>mass_exp = 1, length_exp = 0, time_exp = 0\<rparr>\<rparr>"

definition mm2 :: quantity where
  "mm2 = \<lparr>magnitude = 1 / 1000000, dim = \<lparr>mass_exp = 0, length_exp = 2, time_exp = 0\<rparr>\<rparr>"

text \<open>\<^verbatim>\<open>q.check(u)\<close>: the quantity has the dimension of the unit.\<close>

definition check :: "quantity \<Rightarrow> quantity \<Rightarrow> bool" where
  "check q u = (dim q = dim u)"

text \<open>
  What a call can raise instead of returning. \<open>NotFinite\<close> is no exception: it stands
  for a float result that is \<open>inf\<close>, which a quantity of this development cannot hold.
\<close>

datatype error =
    AssertionError
  | IndexError
  | KeyError
  | AttributeError
  | UnitsError
  | DimensionalityError
  | OverflowError
  | NotFinite
  | SystemExit

text \<open>
  \<^verbatim>\<open>a + b\<close> on two quantities fails when the dimensions differ. Like \<open>qmul\<close> and
  \<open>qscale\<close> it computes exactly, as Python does on int and Fraction magnitudes; the
  rounded operations on float magnitudes are \<open>qadd_float\<close> and \<open>qscale_float\<close> below.
\<close>

definition qadd :: "quantity \<Rightarrow> quantity \<Rightarrow> error + quantity" where
  "qadd a b =
     (if dim a = dim b
      then Inr \<lparr>magnitude = magnitude a + magnitude b, dim = dim a\<rparr>
      else Inl DimensionalityError)"

text \<open>The carbon value type: a quantity and the tag of its source category.\<close>

datatype SourceType =
    FABRICATION
  | ACTIVE
  | PASSIVES
  | CONNECTOR
  | INDUCTOR
  | SWITCH
  | OTHER

record Carbon =
  amount :: quantity
  source :: SourceType

text \<open>
  A Python dict keeps its keys in insertion order, and two models read
  \<^verbatim>\<open>list(d.values())[0]\<close>, so a dict is an association list: a store to a key that is
  present replaces the value in place, a store to a new key appends.
\<close>

fun dict_set :: "('k \<times> 'v) list \<Rightarrow> 'k \<Rightarrow> 'v \<Rightarrow> ('k \<times> 'v) list" where
  "dict_set [] k v = [(k, v)]"
| "dict_set ((k', v') # d) k v =
     (if k' = k then (k, v) # d else (k', v') # dict_set d k v)"

definition dict_in :: "'k \<Rightarrow> ('k \<times> 'v) list \<Rightarrow> bool" where
  "dict_in k d = (map_of d k \<noteq> None)"

text \<open>\<^verbatim>\<open>d[k]\<close> raises KeyError on a missing key.\<close>

definition dict_index :: "('k \<times> 'v) list \<Rightarrow> 'k \<Rightarrow> error + 'v" where
  "dict_index d k = (case map_of d k of None \<Rightarrow> Inl KeyError | Some v \<Rightarrow> Inr v)"

text \<open>
  The configuration document after the YAML loader: a key is a string or an integer, and
  each scalar value is given as the quantity that \<^verbatim>\<open>units(value)\<close> parses it to.
\<close>

datatype yaml_key = YStr string | YInt int

type_synonym document = "(yaml_key \<times> quantity) list"

text \<open>
  The loading loop every flat model runs: \<^verbatim>\<open>Enum(key)\<close> raises ValueError on a key that
  is no member (here \<open>None\<close>), and the pair is skipped.
\<close>

definition load_step ::
  "(yaml_key \<Rightarrow> 't option) \<Rightarrow> ('t \<times> quantity) list \<Rightarrow> yaml_key \<times> quantity \<Rightarrow> ('t \<times> quantity) list" where
  "load_step enum d kv =
     (case enum (fst kv) of None \<Rightarrow> d | Some t \<Rightarrow> dict_set d t (snd kv))"

definition load_factors :: "(yaml_key \<Rightarrow> 't option) \<Rightarrow> document \<Rightarrow> ('t \<times> quantity) list" where
  "load_factors enum model_data = foldl (load_step enum) [] model_data"

text \<open>
  The resolution contract of the specification, in its words: the explicit entry of the
  requested type when there is one, else the entry of the default member.
\<close>

definition resolve :: "('t \<times> quantity) list \<Rightarrow> 't \<Rightarrow> 't \<Rightarrow> quantity option" where
  "resolve table default_type requested =
     (case map_of table requested of Some f \<Rightarrow> Some f | None \<Rightarrow> map_of table default_type)"

section \<open>Mass-based models\<close>

subsection \<open>ActiveModel\<close>

datatype ActiveType =
    Active_TRANSISTOR_BJT
  | Active_TRANSISTOR_MOSFET
  | Active_ACTIVE_GENERIC
  | Active_GENERIC

definition ActiveType_of :: "yaml_key \<Rightarrow> ActiveType option" where
  "ActiveType_of k =
     (if k = YStr ''transistor_bjt'' then Some Active_TRANSISTOR_BJT
      else if k = YStr ''transistor_mosfet'' then Some Active_TRANSISTOR_MOSFET
      else if k = YStr ''active_generic'' then Some Active_ACTIVE_GENERIC
      else if k = YStr ''generic'' then Some Active_GENERIC
      else None)"

record ActiveModel =
  active_emission_factors :: "(ActiveType \<times> quantity) list"

definition ActiveModel_init :: "document \<Rightarrow> error + ActiveModel" where
  "ActiveModel_init model_data =
     (let ef = load_factors ActiveType_of model_data in
      if \<not> dict_in Active_GENERIC ef then
        (case map_of ef Active_ACTIVE_GENERIC of
           Some f \<Rightarrow> Inr \<lparr>active_emission_factors = dict_set ef Active_GENERIC f\<rparr>
         | None \<Rightarrow> Inl SystemExit)
      else Inr \<lparr>active_emission_factors = ef\<rparr>)"

definition ActiveModel_get_carbon ::
  "ActiveModel \<Rightarrow> quantity \<Rightarrow> ActiveType \<Rightarrow> int \<Rightarrow> error + Carbon" where
  "ActiveModel_get_carbon self weight active_type n_components =
     (if \<not> check weight kg then Inl AssertionError
      else
        (case (if \<not> dict_in active_type (active_emission_factors self)
               then dict_index (active_emission_factors self) Active_GENERIC
               else dict_index (active_emission_factors self) active_type) of
           Inl e \<Rightarrow> Inl e
         | Inr emission_factor \<Rightarrow>
             Inr \<lparr>amount = qscale (qmul weight emission_factor) n_components,
                  source = ACTIVE\<rparr>))"

subsection \<open>ConnectorModel\<close>

datatype ConnectorType = Connector_PCI | Connector_PERIPHERAL

definition ConnectorType_of :: "yaml_key \<Rightarrow> ConnectorType option" where
  "ConnectorType_of k =
     (if k = YStr ''pci'' then Some Connector_PCI
      else if k = YStr ''peripheral'' then Some Connector_PERIPHERAL
      else None)"

record ConnectorModel =
  connector_emission_factors :: "(ConnectorType \<times> quantity) list"

definition ConnectorModel_init :: "document \<Rightarrow> error + ConnectorModel" where
  "ConnectorModel_init model_data =
     (let ef = load_factors ConnectorType_of model_data in
      if \<not> dict_in Connector_PERIPHERAL ef then Inl SystemExit
      else if \<not> dict_in Connector_PCI ef then Inl SystemExit
      else Inr \<lparr>connector_emission_factors = ef\<rparr>)"

definition ConnectorModel_get_carbon ::
  "ConnectorModel \<Rightarrow> quantity \<Rightarrow> ConnectorType \<Rightarrow> int \<Rightarrow> error + Carbon" where
  "ConnectorModel_get_carbon self weight connector_type n_connectors =
     (if \<not> check weight kg then Inl AssertionError
      else
        (case (if \<not> dict_in connector_type (connector_emission_factors self)
               then dict_index (connector_emission_factors self) Connector_PERIPHERAL
               else dict_index (connector_emission_factors self) connector_type) of
           Inl e \<Rightarrow> Inl e
         | Inr emission_factor \<Rightarrow>
             (let carbon_per_connector = qmul weight emission_factor in
              Inr \<lparr>amount = qscale carbon_per_connector n_connectors,
                   source = CONNECTOR\<rparr>)))"

subsection \<open>DiodeModel\<close>

datatype DiodeType =
    Diode_GLASS_SMD
  | Diode_LED
  | Diode_TRANSISTOR
  | Diode_GENERIC

definition DiodeType_of :: "yaml_key \<Rightarrow> DiodeType option" where
  "DiodeType_of k =
     (if k = YStr ''glass_smd'' then Some Diode_GLASS_SMD
      else if k = YStr ''led'' then Some Diode_LED
      else if k = YStr ''transistor'' then Some Diode_TRANSISTOR
      else if k = YStr ''generic'' then Some Diode_GENERIC
      else None)"

record DiodeModel =
  diode_emission_factors :: "(DiodeType \<times> quantity) list"

definition DiodeModel_init :: "document \<Rightarrow> error + DiodeModel" where
  "DiodeModel_init model_data =
     (let ef = load_factors DiodeType_of model_data in
      if \<not> dict_in Diode_GENERIC ef then
        (case map_of ef Diode_GLASS_SMD of
           Some f \<Rightarrow> Inr \<lparr>diode_emission_factors = dict_set ef Diode_GENERIC f\<rparr>
         | None \<Rightarrow> Inl SystemExit)
      else Inr \<lparr>diode_emission_factors = ef\<rparr>)"

definition DiodeModel_get_carbon ::
  "DiodeModel \<Rightarrow> quantity \<Rightarrow> DiodeType \<Rightarrow> int \<Rightarrow> error + Carbon" where
  "DiodeModel_get_carbon self weight diode_type n_diodes =
     (if \<not> check weight kg then Inl AssertionError
      else
        (case (if \<not> dict_in diode_type (diode_emission_factors self)
               then dict_index (diode_emission_factors self) Diode_GENERIC
               else dict_index (diode_emission_factors self) diode_type) of
           Inl e \<Rightarrow> Inl e
         | Inr emission_factor \<Rightarrow>
             Inr \<lparr>amount = qscale (qmul weight emission_factor) n_diodes,
                  source = FABRICATION\<rparr>))"

subsection \<open>OtherModel\<close>

datatype OtherType =
    Other_PASSIVE_GENERIC
  | Other_ACTIVE_GENERIC
  | Other_GENERIC

definition OtherType_of :: "yaml_key \<Rightarrow> OtherType option" where
  "OtherType_of k =
     (if k = YStr ''passive_generic'' then Some Other_PASSIVE_GENERIC
      else if k = YStr ''active_generic'' then Some Other_ACTIVE_GENERIC
      else if k = YStr ''generic'' then Some Other_GENERIC
      else None)"

record OtherModel =
  other_emission_factors :: "(OtherType \<times> quantity) list"

definition OtherModel_init :: "document \<Rightarrow> error + OtherModel" where
  "OtherModel_init model_data =
     (let ef = load_factors OtherType_of model_data in
      if \<not> dict_in Other_GENERIC ef then Inl SystemExit
      else Inr \<lparr>other_emission_factors = ef\<rparr>)"

definition OtherModel_get_carbon ::
  "OtherModel \<Rightarrow> quantity \<Rightarrow> OtherType \<Rightarrow> int \<Rightarrow> error + Carbon" where
  "OtherModel_get_carbon self weight component_type n_components =
     (if \<not> check weight kg then Inl AssertionError
      else
        (case (if \<not> dict_in component_type (other_emission_factors self)
               then dict_index (other_emission_factors self) Other_GENERIC
               else dict_index (other_emission_factors self) component_type) of
           Inl e \<Rightarrow> Inl e
         | Inr emission_factor \<Rightarrow>
             Inr \<lparr>amount = qscale (qmul weight emission_factor) n_components,
                  source = OTHER\<rparr>))"

subsection \<open>SwitchModel\<close>

datatype SwitchType = Switch_GENERIC

definition SwitchType_of :: "yaml_key \<Rightarrow> SwitchType option" where
  "SwitchType_of k = (if k = YStr ''generic'' then Some Switch_GENERIC else None)"

record SwitchModel =
  switch_emission_factors :: "(SwitchType \<times> quantity) list"

definition SwitchModel_init :: "document \<Rightarrow> error + SwitchModel" where
  "SwitchModel_init model_data =
     (let ef = load_factors SwitchType_of model_data in
      if \<not> dict_in Switch_GENERIC ef then Inl SystemExit
      else Inr \<lparr>switch_emission_factors = ef\<rparr>)"

definition SwitchModel_get_carbon ::
  "SwitchModel \<Rightarrow> quantity \<Rightarrow> SwitchType \<Rightarrow> int \<Rightarrow> error + Carbon" where
  "SwitchModel_get_carbon self weight switch_type n_switches =
     (if \<not> check weight kg then Inl AssertionError
      else
        (case (if \<not> dict_in switch_type (switch_emission_factors self)
               then dict_index (switch_emission_factors self) Switch_GENERIC
               else dict_index (switch_emission_factors self) switch_type) of
           Inl e \<Rightarrow> Inl e
         | Inr emission_factor \<Rightarrow>
             Inr \<lparr>amount = qscale (qmul weight emission_factor) n_switches,
                  source = SWITCH\<rparr>))"

section \<open>Package-count model\<close>

subsection \<open>ResistorModel\<close>

datatype ResistorType =
    Resistor_PKG_0201
  | Resistor_PKG_0402
  | Resistor_PKG_0603
  | Resistor_PKG_0805
  | Resistor_GENERIC

definition ResistorType_of :: "yaml_key \<Rightarrow> ResistorType option" where
  "ResistorType_of k =
     (if k = YStr ''0201'' then Some Resistor_PKG_0201
      else if k = YStr ''0402'' then Some Resistor_PKG_0402
      else if k = YStr ''0603'' then Some Resistor_PKG_0603
      else if k = YStr ''0805'' then Some Resistor_PKG_0805
      else if k = YStr ''generic'' then Some Resistor_GENERIC
      else None)"

record ResistorModel =
  resistor_emission_factors :: "(ResistorType \<times> quantity) list"

definition ResistorModel_init :: "document \<Rightarrow> error + ResistorModel" where
  "ResistorModel_init model_data =
     (let ef = load_factors ResistorType_of model_data in
      if ef = [] then Inl SystemExit
      else
        (case map_of ef Resistor_PKG_0805 of
           Some f \<Rightarrow>
             if \<not> dict_in Resistor_GENERIC ef
             then Inr \<lparr>resistor_emission_factors = dict_set ef Resistor_GENERIC f\<rparr>
             else Inr \<lparr>resistor_emission_factors = ef\<rparr>
         | None \<Rightarrow> Inr \<lparr>resistor_emission_factors = ef\<rparr>))"

text \<open>
  \<^verbatim>\<open>d.get(k, list(d.values())[0])\<close>: Python evaluates the default before the lookup, so
  the expression raises IndexError on an empty dict whether or not it would be used.
\<close>

definition get_or_first :: "('k \<times> 'v) list \<Rightarrow> 'k \<Rightarrow> error + 'v" where
  "get_or_first d k =
     (case map snd d of
        [] \<Rightarrow> Inl IndexError
      | v # _ \<Rightarrow> Inr (case map_of d k of Some f \<Rightarrow> f | None \<Rightarrow> v))"

text \<open>
  The type argument is optional: \<open>None\<close> is a call that leaves it out, and the
  parameter then takes its default, the 0805 package.
\<close>

definition ResistorModel_get_carbon ::
  "ResistorModel \<Rightarrow> int \<Rightarrow> ResistorType option \<Rightarrow> error + Carbon" where
  "ResistorModel_get_carbon self n_resistors resistor_type_arg =
     (let resistor_type =
            (case resistor_type_arg of None \<Rightarrow> Resistor_PKG_0805 | Some t \<Rightarrow> t) in
      case (if \<not> dict_in resistor_type (resistor_emission_factors self)
            then get_or_first (resistor_emission_factors self) Resistor_PKG_0805
            else dict_index (resistor_emission_factors self) resistor_type) of
        Inl e \<Rightarrow> Inl e
      | Inr emission_factor \<Rightarrow>
          Inr \<lparr>amount = qscale emission_factor n_resistors, source = FABRICATION\<rparr>)"

section \<open>Dual-mode models\<close>

subsection \<open>InductorModel\<close>

datatype InductorType =
    Inductor_WEIGHT_BASED
  | Inductor_PKG_0201
  | Inductor_PKG_0402
  | Inductor_PKG_0603
  | Inductor_PKG_0805
  | Inductor_GENERIC

definition InductorType_of :: "yaml_key \<Rightarrow> InductorType option" where
  "InductorType_of k =
     (if k = YStr ''weight_based'' then Some Inductor_WEIGHT_BASED
      else if k = YStr ''0201'' then Some Inductor_PKG_0201
      else if k = YStr ''0402'' then Some Inductor_PKG_0402
      else if k = YStr ''0603'' then Some Inductor_PKG_0603
      else if k = YStr ''0805'' then Some Inductor_PKG_0805
      else if k = YStr ''generic'' then Some Inductor_GENERIC
      else None)"

record InductorModel =
  weight_based_factor :: "quantity option"
  package_emission_factors :: "(InductorType \<times> quantity) list"

definition Inductor_load_step :: "InductorModel \<Rightarrow> yaml_key \<times> quantity \<Rightarrow> InductorModel" where
  "Inductor_load_step self kv =
     (if fst kv = YStr ''weight_based''
      then self\<lparr>weight_based_factor := Some (snd kv)\<rparr>
      else
        (case InductorType_of (fst kv) of
           Some inductor_type \<Rightarrow>
             self\<lparr>package_emission_factors :=
                    dict_set (package_emission_factors self) inductor_type (snd kv)\<rparr>
         | None \<Rightarrow> self))"

definition InductorModel_init :: "document \<Rightarrow> error + InductorModel" where
  "InductorModel_init model_data =
     (let self = foldl Inductor_load_step
                   \<lparr>weight_based_factor = None, package_emission_factors = []\<rparr> model_data in
      case map_of (package_emission_factors self) Inductor_PKG_0805 of
        Some f \<Rightarrow>
          Inr (self\<lparr>package_emission_factors :=
                       dict_set (package_emission_factors self) Inductor_GENERIC f\<rparr>)
      | None \<Rightarrow> Inr self)"

definition is_package_type :: "InductorType \<Rightarrow> bool" where
  "is_package_type inductor_type =
     (inductor_type \<in> set [Inductor_PKG_0201, Inductor_PKG_0402, Inductor_PKG_0603,
                            Inductor_PKG_0805, Inductor_GENERIC])"

definition InductorModel_get_carbon ::
  "InductorModel \<Rightarrow> int \<Rightarrow> InductorType \<Rightarrow> quantity option \<Rightarrow> error + Carbon" where
  "InductorModel_get_carbon self n_inductors inductor_type weight =
     (if is_package_type inductor_type \<and> weight = None then
        (case (if \<not> dict_in inductor_type (package_emission_factors self)
               then get_or_first (package_emission_factors self) Inductor_PKG_0805
               else dict_index (package_emission_factors self) inductor_type) of
           Inl e \<Rightarrow> Inl e
         | Inr emission_factor \<Rightarrow>
             Inr \<lparr>amount = qscale emission_factor n_inductors, source = INDUCTOR\<rparr>)
      else
        (case weight of
           None \<Rightarrow> Inr \<lparr>amount = qscale kg 0, source = INDUCTOR\<rparr>
         | Some w \<Rightarrow>
             if \<not> check w kg then Inl AssertionError
             else
               (case weight_based_factor self of
                  None \<Rightarrow> Inr \<lparr>amount = qscale kg 0, source = INDUCTOR\<rparr>
                | Some wbf \<Rightarrow>
                    Inr \<lparr>amount = qscale (qmul w wbf) n_inductors, source = INDUCTOR\<rparr>)))"

subsection \<open>CapacitorModel\<close>

datatype CapacitorType =
    Capacitor_MLCC
  | Capacitor_TEC
  | Capacitor_GENERIC
  | Capacitor_PKG_0201
  | Capacitor_PKG_0402
  | Capacitor_PKG_0603
  | Capacitor_PKG_0805

definition CapacitorType_of :: "yaml_key \<Rightarrow> CapacitorType option" where
  "CapacitorType_of k =
     (if k = YStr ''mlcc'' then Some Capacitor_MLCC
      else if k = YStr ''tec'' then Some Capacitor_TEC
      else if k = YStr ''generic'' then Some Capacitor_GENERIC
      else if k = YStr ''0201'' then Some Capacitor_PKG_0201
      else if k = YStr ''0402'' then Some Capacitor_PKG_0402
      else if k = YStr ''0603'' then Some Capacitor_PKG_0603
      else if k = YStr ''0805'' then Some Capacitor_PKG_0805
      else None)"

definition DEFAULT_CARBON_PER_CAPACITOR :: quantity where
  "DEFAULT_CARBON_PER_CAPACITOR = qscale g 300"

text \<open>
  The location enumeration and the carbon-intensity table come from outside the models:
  the type \<open>'loc\<close> stands for \<^verbatim>\<open>EnergyLocation\<close>, and the table that
  \<^verbatim>\<open>load_ci_model()\<close> returns is an argument of the constructor.
\<close>

record 'loc CapacitorModel =
  capacitor_model :: "(CapacitorType \<times> quantity) list"
  package_model :: "(CapacitorType \<times> quantity) list"
  ci_model :: "('loc \<times> quantity) list"

definition Capacitor_load_step ::
  "'loc CapacitorModel \<Rightarrow> yaml_key \<times> quantity \<Rightarrow> 'loc CapacitorModel" where
  "Capacitor_load_step self kv =
     (case CapacitorType_of (fst kv) of
        Some cap_type \<Rightarrow>
          if cap_type \<in> set [Capacitor_MLCC, Capacitor_TEC, Capacitor_GENERIC]
          then self\<lparr>capacitor_model := dict_set (capacitor_model self) cap_type (snd kv)\<rparr>
          else self\<lparr>package_model := dict_set (package_model self) cap_type (snd kv)\<rparr>
      | None \<Rightarrow> self)"

definition CapacitorModel_init ::
  "('loc \<times> quantity) list \<Rightarrow> document \<Rightarrow> error + 'loc CapacitorModel" where
  "CapacitorModel_init loaded_ci_model model_data =
     (let self = foldl Capacitor_load_step
                   \<lparr>capacitor_model = [], package_model = [], ci_model = []\<rparr> model_data in
      Inr (self\<lparr>ci_model := loaded_ci_model\<rparr>))"

definition CapacitorModel_get_carbon ::
  "'loc CapacitorModel \<Rightarrow> 'loc \<Rightarrow> CapacitorType \<Rightarrow> quantity \<Rightarrow> int \<Rightarrow> error + Carbon" where
  "CapacitorModel_get_carbon self ci ctype weight n_caps =
     (case map_of (package_model self) ctype of
        Some emission_per_cap \<Rightarrow>
          Inr \<lparr>amount = qscale emission_per_cap n_caps, source = PASSIVES\<rparr>
      | None \<Rightarrow>
          (case map_of (capacitor_model self) ctype of
             Some energy_per_kg \<Rightarrow>
               (case dict_index (ci_model self) ci of
                  Inl e \<Rightarrow> Inl e
                | Inr carbon_intensity \<Rightarrow>
                    Inr \<lparr>amount = qmul (qscale (qmul energy_per_kg weight) n_caps)
                                     carbon_intensity,
                         source = PASSIVES\<rparr>)
           | None \<Rightarrow>
               Inr \<lparr>amount = qscale DEFAULT_CARBON_PER_CAPACITOR n_caps,
                    source = PASSIVES\<rparr>))"

section \<open>Area and layer model\<close>

subsection \<open>PCBModel\<close>

text \<open>
  The PCB document nests a mapping under \<^verbatim>\<open>typical_thickness\<close>, so a value is a scalar
  or a mapping. \<^verbatim>\<open>units\<close> rejects a mapping, and a scalar has no \<^verbatim>\<open>items()\<close>.
\<close>

datatype yaml_value = YScalar quantity | YMapping "(yaml_key \<times> quantity) list"

type_synonym pcb_document = "(yaml_key \<times> yaml_value) list"

definition units :: "yaml_value \<Rightarrow> error + quantity" where
  "units v = (case v of YScalar q \<Rightarrow> Inr q | YMapping _ \<Rightarrow> Inl UnitsError)"

definition INTERPOLATED_AVERAGE_KEY :: yaml_key where
  "INTERPOLATED_AVERAGE_KEY = YStr ''cpla''"

record PCBModel =
  model :: "(yaml_key \<times> quantity) list"
  typical_thickness :: "(yaml_key \<times> quantity) list"
  carbon_coefficient :: "quantity option"
  interpolated_cpla :: "quantity option"

definition PCB_load_step :: "PCBModel \<Rightarrow> yaml_key \<times> yaml_value \<Rightarrow> error + PCBModel" where
  "PCB_load_step self kv =
     (let k = fst kv; v = snd kv in
      if k = INTERPOLATED_AVERAGE_KEY then
        (case units v of Inl e \<Rightarrow> Inl e
         | Inr q \<Rightarrow> Inr (self\<lparr>interpolated_cpla := Some q\<rparr>))
      else if k = YStr ''typical_thickness'' then
        (case v of
           YMapping items \<Rightarrow>
             Inr (self\<lparr>typical_thickness :=
                         foldl (\<lambda>d lt. dict_set d (fst lt) (snd lt)) [] items\<rparr>)
         | YScalar _ \<Rightarrow> Inl AttributeError)
      else if k = YStr ''carbon_coefficient'' then
        (case units v of Inl e \<Rightarrow> Inl e
         | Inr q \<Rightarrow> Inr (self\<lparr>carbon_coefficient := Some q\<rparr>))
      else
        (case units v of Inl e \<Rightarrow> Inl e
         | Inr q \<Rightarrow> Inr (self\<lparr>model := dict_set (model self) k q\<rparr>)))"

fun PCB_load :: "PCBModel \<Rightarrow> pcb_document \<Rightarrow> error + PCBModel" where
  "PCB_load self [] = Inr self"
| "PCB_load self (kv # rest) =
     (case PCB_load_step self kv of Inl e \<Rightarrow> Inl e | Inr self' \<Rightarrow> PCB_load self' rest)"

definition PCBModel_init :: "pcb_document \<Rightarrow> error + PCBModel" where
  "PCBModel_init model_data =
     (case PCB_load \<lparr>model = [], typical_thickness = [], carbon_coefficient = None,
                     interpolated_cpla = None\<rparr> model_data of
        Inl e \<Rightarrow> Inl e
      | Inr self \<Rightarrow>
          if \<not> dict_in INTERPOLATED_AVERAGE_KEY (model self)
             \<and> \<not> dict_in INTERPOLATED_AVERAGE_KEY model_data
          then Inr (self\<lparr>interpolated_cpla := None\<rparr>)
          else Inr self)"

text \<open>
  \<^verbatim>\<open>thickness\<close> is \<open>None\<close> or a quantity; a bare number is a quantity of dimension one.
\<close>

definition PCBModel_get_carbon ::
  "PCBModel \<Rightarrow> quantity \<Rightarrow> int \<Rightarrow> quantity option \<Rightarrow> error + Carbon" where
  "PCBModel_get_carbon self area layers thickness =
     (if \<not> check area mm2 then Inl AssertionError
      else
        (case (thickness, carbon_coefficient self) of
           (Some th, Some coeff) \<Rightarrow>
             Inr \<lparr>amount = qmul (qmul (qscale area layers) th) coeff, source = FABRICATION\<rparr>
         | _ \<Rightarrow>
             (case map_of (model self) (YInt layers) of
                Some cpa \<Rightarrow> Inr \<lparr>amount = qmul cpa area, source = FABRICATION\<rparr>
              | None \<Rightarrow>
                  (case interpolated_cpla self of
                     Some cpla \<Rightarrow>
                       Inr \<lparr>amount = qmul (qscale cpla layers) area, source = FABRICATION\<rparr>
                   | None \<Rightarrow> Inl SystemExit))))"

section \<open>Sums of repeated calls\<close>

text \<open>\<^verbatim>\<open>q0 + q1 + ... + qk\<close>, left to right, stopping at the first addition that fails.\<close>

fun add_all :: "quantity \<Rightarrow> quantity list \<Rightarrow> error + quantity" where
  "add_all acc [] = Inr acc"
| "add_all acc (q # qs) =
     (case qadd acc q of Inl e \<Rightarrow> Inl e | Inr s \<Rightarrow> add_all s qs)"

text \<open>The sum of the amounts of \<open>n\<close> calls that each return \<open>r\<close>, for \<open>n \<ge> 1\<close>.\<close>

definition sum_of_calls :: "nat \<Rightarrow> error + Carbon \<Rightarrow> error + quantity" where
  "sum_of_calls n r =
     (case r of
        Inl e \<Rightarrow> Inl e
      | Inr c \<Rightarrow> add_all (amount c) (replicate (n - 1) (amount c)))"

section \<open>Float magnitudes\<close>

text \<open>
  A magnitude that \<^verbatim>\<open>units\<close> parses from a decimal literal is a Python float, an IEEE
  binary64 number, and every product and sum of two floats is rounded to the nearest
  double, ties to even. A finite double is represented here by the rational it denotes.
  \<open>binary64 x\<close> is the double nearest to \<open>x\<close>, subnormals included; it is \<open>None\<close>
  when the rounded value lies beyond the largest finite double.
\<close>

definition pow2 :: "int \<Rightarrow> rat" where
  "pow2 e = (if 0 \<le> e then 2 ^ nat e else 1 / 2 ^ nat (- e))"

text \<open>
  The exponent \<open>e\<close> with \<open>2 ^ e \<le> x < 2 ^ (e + 1)\<close> for positive \<open>x\<close>, found by
  halving or doubling; the search is cut off beyond the exponents a double can have.
\<close>

fun binade :: "nat \<Rightarrow> rat \<Rightarrow> int" where
  "binade 0 x = 0"
| "binade (Suc fuel) x =
     (if 2 \<le> x then binade fuel (x / 2) + 1
      else if x < 1 then binade fuel (x * 2) - 1
      else 0)"

definition round_half_even :: "rat \<Rightarrow> int" where
  "round_half_even q =
     (let f = \<lfloor>q\<rfloor>; r = q - of_int f in
      if r < 1 / 2 then f
      else if 1 / 2 < r then f + 1
      else if even f then f else f + 1)"

text \<open>
  Rounding a positive \<open>a\<close> in steps: its exponent, raised to the least exponent of a
  normal double so that subnormals share one spacing; the spacing \<open>ulp\<close> of the doubles
  at that exponent; the mantissa, \<open>a / ulp\<close> rounded to an integer. A mantissa that
  rounds up to \<open>2 ^ 53\<close> at the largest exponent has left the finite doubles.
\<close>

definition scale_mantissa :: "int \<Rightarrow> rat \<Rightarrow> int \<Rightarrow> rat option" where
  "scale_mantissa e ulp m =
     (if e = 1023 \<and> m = 9007199254740992 then None else Some (of_int m * ulp))"

definition round_with_ulp :: "int \<Rightarrow> rat \<Rightarrow> rat \<Rightarrow> rat option" where
  "round_with_ulp e ulp a = scale_mantissa e ulp (round_half_even (a / ulp))"

definition round_in_binade :: "int \<Rightarrow> rat \<Rightarrow> rat option" where
  "round_in_binade e a = (if 1023 < e then None else round_with_ulp e (pow2 (e - 52)) a)"

definition round_positive :: "rat \<Rightarrow> rat option" where
  "round_positive a = round_in_binade (max (binade 1100 a) (- 1022)) a"

definition binary64 :: "rat \<Rightarrow> rat option" where
  "binary64 x =
     (if x = 0 then Some 0
      else if x < 0 then map_option uminus (round_positive (- x))
      else round_positive x)"

text \<open>
  \<^verbatim>\<open>a * n\<close> for a quantity with a float magnitude and a Python int: the int is
  converted to a float first (OverflowError when it is too large), then the product is
  rounded.
\<close>

definition qscale_float :: "quantity \<Rightarrow> int \<Rightarrow> error + quantity" where
  "qscale_float a n =
     (case binary64 (of_int n) of
        None \<Rightarrow> Inl OverflowError
      | Some f \<Rightarrow>
          (case binary64 (magnitude a * f) of
             None \<Rightarrow> Inl NotFinite
           | Some p \<Rightarrow> Inr \<lparr>magnitude = p, dim = dim a\<rparr>))"

text \<open>\<^verbatim>\<open>a + b\<close> for two quantities with float magnitudes.\<close>

definition qadd_float :: "quantity \<Rightarrow> quantity \<Rightarrow> error + quantity" where
  "qadd_float a b =
     (if dim a = dim b
      then (case binary64 (magnitude a + magnitude b) of
              None \<Rightarrow> Inl NotFinite
            | Some s \<Rightarrow> Inr \<lparr>magnitude = s, dim = dim a\<rparr>)
      else Inl DimensionalityError)"

text \<open>
  \<^verbatim>\<open>ResistorModel.get_carbon\<close> once more, on float magnitudes: the same lookup, and the
  product \<^verbatim>\<open>emission_factor * n_resistors\<close> rounded.
\<close>

definition ResistorModel_get_carbon_float ::
  "ResistorModel \<Rightarrow> int \<Rightarrow> ResistorType option \<Rightarrow> error + Carbon" where
  "ResistorModel_get_carbon_float self n_resistors resistor_type_arg =
     (let resistor_type =
            (case resistor_type_arg of None \<Rightarrow> Resistor_PKG_0805 | Some t \<Rightarrow> t) in
      case (if \<not> dict_in resistor_type (resistor_emission_factors self)
            then get_or_first (resistor_emission_factors self) Resistor_PKG_0805
            else dict_index (resistor_emission_factors self) resistor_type) of
        Inl e \<Rightarrow> Inl e
      | Inr emission_factor \<Rightarrow>
          (case qscale_float emission_factor n_resistors of
             Inl e \<Rightarrow> Inl e
           | Inr total_carbon \<Rightarrow> Inr \<lparr>amount = total_carbon, source = FABRICATION\<rparr>))"

fun add_all_float :: "quantity \<Rightarrow> quantity list \<Rightarrow> error + quantity" where
  "add_all_float acc [] = Inr acc"
| "add_all_float acc (q # qs) =
     (case qadd_float acc q of Inl e \<Rightarrow> Inl e | Inr s \<Rightarrow> add_all_float s qs)"

definition sum_of_calls_float :: "nat \<Rightarrow> error + Carbon \<Rightarrow> error + quantity" where
  "sum_of_calls_float n r =
     (case r of
        Inl e \<Rightarrow> Inl e
      | Inr c \<Rightarrow> add_all_float (amount c) (replicate (n - 1) (amount c)))"

section \<open>Example configurations\<close>

text \<open>Small documents and inputs on which the properties below are exercised.\<close>

definition dimensionless :: "rat \<Rightarrow> quantity" where
  "dimensionless x = \<lparr>magnitude = x, dim = \<lparr>mass_exp = 0, length_exp = 0, time_exp = 0\<rparr>\<rparr>"

definition example_active_doc :: document where
  "example_active_doc =
     [(YStr ''transistor_bjt'', dimensionless 50), (YStr ''active_generic'', dimensionless 30),
      (YStr ''thyristor'', dimensionless 7)]"

definition example_connector_doc :: document where
  "example_connector_doc =
     [(YStr ''pci'', dimensionless 112), (YStr ''peripheral'', dimensionless (938 / 100))]"

definition example_diode_doc :: document where
  "example_diode_doc = [(YStr ''glass_smd'', dimensionless 20), (YStr ''led'', dimensionless 40)]"

definition example_other_doc :: document where
  "example_other_doc = [(YStr ''generic'', dimensionless 10)]"

definition example_switch_doc :: document where
  "example_switch_doc = [(YStr ''generic'', dimensionless 6)]"

definition mass_kg :: "rat \<Rightarrow> quantity" where
  "mass_kg x = \<lparr>magnitude = x, dim = \<lparr>mass_exp = 1, length_exp = 0, time_exp = 0\<rparr>\<rparr>"

definition length_mm :: "rat \<Rightarrow> quantity" where
  "length_mm x = \<lparr>magnitude = x / 1000, dim = \<lparr>mass_exp = 0, length_exp = 1, time_exp = 0\<rparr>\<rparr>"

definition kg_per_mm2 :: "rat \<Rightarrow> quantity" where
  "kg_per_mm2 x =
     \<lparr>magnitude = x * 1000000, dim = \<lparr>mass_exp = 1, length_exp = - 2, time_exp = 0\<rparr>\<rparr>"

definition MJ_per_kg :: "rat \<Rightarrow> quantity" where
  "MJ_per_kg x =
     \<lparr>magnitude = x * 1000000, dim = \<lparr>mass_exp = 0, length_exp = 2, time_exp = - 2\<rparr>\<rparr>"

definition g_per_kWh :: "rat \<Rightarrow> quantity" where
  "g_per_kWh x =
     \<lparr>magnitude = x / 3600000000, dim = \<lparr>mass_exp = 0, length_exp = - 2, time_exp = 2\<rparr>\<rparr>"

definition example_pcb_doc :: pcb_document where
  "example_pcb_doc =
     [(YInt 2, YScalar (kg_per_mm2 (3 / 100))), (YInt 4, YScalar (kg_per_mm2 (5 / 100))),
      (YStr ''cpla'', YScalar (kg_per_mm2 (2 / 100)))]"

definition example_pcb_doc_no_cpla :: pcb_document where
  "example_pcb_doc_no_cpla =
     [(YInt 2, YScalar (kg_per_mm2 (3 / 100))), (YInt 4, YScalar (kg_per_mm2 (5 / 100)))]"

definition example_ci_model :: "(string \<times> quantity) list" where
  "example_ci_model = [(''JAPAN'', g_per_kWh 500), (''TAIWAN'', g_per_kWh 600)]"

definition example_capacitor_doc :: document where
  "example_capacitor_doc =
     [(YStr ''mlcc'', MJ_per_kg 36), (YStr ''0402'', mass_kg (4 / 10000))]"

definition example_inductor_weight_doc :: document where
  "example_inductor_weight_doc = [(YStr ''weight_based'', dimensionless 15)]"

definition example_resistor_doc :: document where
  "example_resistor_doc =
     [(YStr ''0402'', mass_kg (2 / 10000)), (YStr ''0805'', mass_kg (5 / 10000)),
      (YStr ''generic'', mass_kg (9 / 10000))]"

text \<open>A resistor document with the one entry \<^verbatim>\<open>"0402": "0.0002 kg"\<close>.\<close>

definition example_resistor_doc_0402_only :: document where
  "example_resistor_doc_0402_only = [(YStr ''0402'', mass_kg (2 / 10000))]"

text \<open>
  A resistor document with the one entry \<^verbatim>\<open>"0805": "0.0005 kg"\<close>, the magnitude being
  the double that the literal \<^verbatim>\<open>0.0005\<close> denotes.
\<close>

definition example_resistor_float_doc :: document where
  "example_resistor_float_doc =
     [(YStr ''0805'', mass_kg (1152921504606847 / 2305843009213693952))]"

definition example_resistor_doc_no_0805 :: document where
  "example_resistor_doc_no_0805 =
     [(YStr ''0402'', mass_kg (2 / 10000)), (YStr ''generic'', mass_kg (9 / 10000))]"

definition example_inductor_doc :: document where
  "example_inductor_doc =
     [(YStr ''0402'', mass_kg (3 / 10000)), (YStr ''weight_based'', dimensionless 15),
      (YStr ''0805'', mass_kg (7 / 10000))]"

definition example_inductor_package_doc :: document where
  "example_inductor_package_doc = [(YStr ''0402'', mass_kg (3 / 10000))]"

section \<open>Properties\<close>

subsection \<open>Unfolding rules for evaluation\<close>

lemmas eval_defs = load_factors_def load_step_def dict_in_def dict_index_def resolve_def
  qscale_def qmul_def dim_mul_def check_def kg_def g_def mm2_def Let_def

lemmas unit_defs = dimensionless_def mass_kg_def length_mm_def kg_per_mm2_def MJ_per_kg_def
  g_per_kWh_def

subsection \<open>Dictionaries, quantities and the loading loop\<close>

lemma map_of_dict_set: "map_of (dict_set d k v) = (map_of d)(k \<mapsto> v)"
  by (induction d k v rule: dict_set.induct) auto

lemma dict_in_dict_set: "dict_in t (dict_set d k v) \<longleftrightarrow> t = k \<or> dict_in t d"
  by (simp add: dict_in_def map_of_dict_set)

lemma dict_set_not_Nil: "dict_set d k v \<noteq> []"
  by (cases d) (auto split: if_splits)

lemma dict_in_Nil: "\<not> dict_in t []"
  by (simp add: dict_in_def)

lemma dict_in_load_step:
  "dict_in t (load_step enum d kv) \<longleftrightarrow> dict_in t d \<or> enum (fst kv) = Some t"
  by (cases "enum (fst kv)") (auto simp: load_step_def dict_in_dict_set)

lemma qmul_commute: "qmul a b = qmul b a"
  by (simp add: qmul_def dim_mul_def mult.commute add.commute)

lemma qscale_zero: "qscale q 0 = \<lparr>magnitude = 0, dim = dim q\<rparr>"
  by (simp add: qscale_def)

lemma dict_in_foldl_load_step:
  "dict_in t (foldl (load_step enum) d0 doc) \<longleftrightarrow>
     dict_in t d0 \<or> (\<exists>k \<in> fst ` set doc. enum k = Some t)"
proof (induction doc arbitrary: d0)
  case Nil
  then show ?case by simp
next
  case (Cons kv doc)
  show ?case
    by (auto simp: Cons.IH dict_in_load_step)
qed

lemma dict_in_load_factors:
  "dict_in t (load_factors enum doc) \<longleftrightarrow> (\<exists>k \<in> fst ` set doc. enum k = Some t)"
  by (simp add: load_factors_def dict_in_foldl_load_step dict_in_Nil)

subsection \<open>Mass-based models: resolution and exact arithmetic\<close>

lemma ActiveModel_init_generic:
  "ActiveModel_init d = Inr m \<Longrightarrow> dict_in Active_GENERIC (active_emission_factors m)"
  by (auto simp: ActiveModel_init_def Let_def dict_in_dict_set split: if_splits option.splits)

lemma ActiveModel_get_carbon_resolved:
  assumes "dict_in Active_GENERIC (active_emission_factors m)" and "check w kg"
  shows "\<exists>f. resolve (active_emission_factors m) Active_GENERIC t = Some f \<and>
           (\<forall>n. ActiveModel_get_carbon m w t n =
                  Inr \<lparr>amount = qscale (qmul w f) n, source = ACTIVE\<rparr>)"
  using assms
  by (auto simp: ActiveModel_get_carbon_def resolve_def dict_in_def dict_index_def
           split: option.splits)

lemma ConnectorModel_init_generic:
  "ConnectorModel_init d = Inr m \<Longrightarrow> dict_in Connector_PERIPHERAL (connector_emission_factors m)"
  by (auto simp: ConnectorModel_init_def Let_def dict_in_dict_set split: if_splits option.splits)

lemma ConnectorModel_get_carbon_resolved:
  assumes "dict_in Connector_PERIPHERAL (connector_emission_factors m)" and "check w kg"
  shows "\<exists>f. resolve (connector_emission_factors m) Connector_PERIPHERAL t = Some f \<and>
           (\<forall>n. ConnectorModel_get_carbon m w t n =
                  Inr \<lparr>amount = qscale (qmul w f) n, source = CONNECTOR\<rparr>)"
  using assms
  by (auto simp: ConnectorModel_get_carbon_def resolve_def dict_in_def dict_index_def
           split: option.splits)

lemma DiodeModel_init_generic:
  "DiodeModel_init d = Inr m \<Longrightarrow> dict_in Diode_GENERIC (diode_emission_factors m)"
  by (auto simp: DiodeModel_init_def Let_def dict_in_dict_set split: if_splits option.splits)

lemma DiodeModel_get_carbon_resolved:
  assumes "dict_in Diode_GENERIC (diode_emission_factors m)" and "check w kg"
  shows "\<exists>f. resolve (diode_emission_factors m) Diode_GENERIC t = Some f \<and>
           (\<forall>n. DiodeModel_get_carbon m w t n =
                  Inr \<lparr>amount = qscale (qmul w f) n, source = FABRICATION\<rparr>)"
  using assms
  by (auto simp: DiodeModel_get_carbon_def resolve_def dict_in_def dict_index_def
           split: option.splits)

lemma OtherModel_init_generic:
  "OtherModel_init d = Inr m \<Longrightarrow> dict_in Other_GENERIC (other_emission_factors m)"
  by (auto simp: OtherModel_init_def Let_def dict_in_dict_set split: if_splits option.splits)

lemma OtherModel_get_carbon_resolved:
  assumes "dict_in Other_GENERIC (other_emission_factors m)" and "check w kg"
  shows "\<exists>f. resolve (other_emission_factors m) Other_GENERIC t = Some f \<and>
           (\<forall>n. OtherModel_get_carbon m w t n =
                  Inr \<lparr>amount = qscale (qmul w f) n, source = OTHER\<rparr>)"
  using assms
  by (auto simp: OtherModel_get_carbon_def resolve_def dict_in_def dict_index_def
           split: option.splits)

lemma SwitchModel_init_generic:
  "SwitchModel_init d = Inr m \<Longrightarrow> dict_in Switch_GENERIC (switch_emission_factors m)"
  by (auto simp: SwitchModel_init_def Let_def dict_in_dict_set split: if_splits option.splits)

lemma SwitchModel_get_carbon_resolved:
  assumes "dict_in Switch_GENERIC (switch_emission_factors m)" and "check w kg"
  shows "\<exists>f. resolve (switch_emission_factors m) Switch_GENERIC t = Some f \<and>
           (\<forall>n. SwitchModel_get_carbon m w t n =
                  Inr \<lparr>amount = qscale (qmul w f) n, source = SWITCH\<rparr>)"
  using assms
  by (auto simp: SwitchModel_get_carbon_def resolve_def dict_in_def dict_index_def
           split: option.splits)

lemma dim_mul_commute: "dim_mul a b = dim_mul b a"
  by (simp add: dim_mul_def add.commute)

lemma qscale_qmul_zero:
  "qscale (qmul a b) 0 = \<lparr>magnitude = 0, dim = dim_mul (dim b) (dim a)\<rparr>"
  by (simp add: qscale_def qmul_def dim_mul_def add.commute)

lemma ActiveModel_exact:
  assumes "ActiveModel_init d = Inr m" and "check w kg"
  shows "\<exists>f. resolve (active_emission_factors m) Active_GENERIC t = Some f \<and>
           ActiveModel_get_carbon m w t n =
             Inr \<lparr>amount = qscale (qmul f w) n, source = ACTIVE\<rparr> \<and>
           ActiveModel_get_carbon m w t 0 =
             Inr \<lparr>amount = \<lparr>magnitude = 0, dim = dim_mul (dim f) (dim w)\<rparr>,
                  source = ACTIVE\<rparr>"
proof -
  from assms obtain f where
    r: "resolve (active_emission_factors m) Active_GENERIC t = Some f" and
    c: "\<And>k. ActiveModel_get_carbon m w t k =
              Inr \<lparr>amount = qscale (qmul w f) k, source = ACTIVE\<rparr>"
    using ActiveModel_get_carbon_resolved [OF ActiveModel_init_generic] by blast
  show ?thesis
    using r c [of n] c [of 0] by (simp add: qmul_commute [of w f] qscale_qmul_zero dim_mul_commute [of "dim w" "dim f"])
qed

lemma ConnectorModel_exact:
  assumes "ConnectorModel_init d = Inr m" and "check w kg"
  shows "\<exists>f. resolve (connector_emission_factors m) Connector_PERIPHERAL t = Some f \<and>
           ConnectorModel_get_carbon m w t n =
             Inr \<lparr>amount = qscale (qmul f w) n, source = CONNECTOR\<rparr> \<and>
           ConnectorModel_get_carbon m w t 0 =
             Inr \<lparr>amount = \<lparr>magnitude = 0, dim = dim_mul (dim f) (dim w)\<rparr>,
                  source = CONNECTOR\<rparr>"
proof -
  from assms obtain f where
    r: "resolve (connector_emission_factors m) Connector_PERIPHERAL t = Some f" and
    c: "\<And>k. ConnectorModel_get_carbon m w t k =
              Inr \<lparr>amount = qscale (qmul w f) k, source = CONNECTOR\<rparr>"
    using ConnectorModel_get_carbon_resolved [OF ConnectorModel_init_generic] by blast
  show ?thesis
    using r c [of n] c [of 0] by (simp add: qmul_commute [of w f] qscale_qmul_zero dim_mul_commute [of "dim w" "dim f"])
qed

lemma DiodeModel_exact:
  assumes "DiodeModel_init d = Inr m" and "check w kg"
  shows "\<exists>f. resolve (diode_emission_factors m) Diode_GENERIC t = Some f \<and>
           DiodeModel_get_carbon m w t n =
             Inr \<lparr>amount = qscale (qmul f w) n, source = FABRICATION\<rparr> \<and>
           DiodeModel_get_carbon m w t 0 =
             Inr \<lparr>amount = \<lparr>magnitude = 0, dim = dim_mul (dim f) (dim w)\<rparr>,
                  source = FABRICATION\<rparr>"
proof -
  from assms obtain f where
    r: "resolve (diode_emission_factors m) Diode_GENERIC t = Some f" and
    c: "\<And>k. DiodeModel_get_carbon m w t k =
              Inr \<lparr>amount = qscale (qmul w f) k, source = FABRICATION\<rparr>"
    using DiodeModel_get_carbon_resolved [OF DiodeModel_init_generic] by blast
  show ?thesis
    using r c [of n] c [of 0] by (simp add: qmul_commute [of w f] qscale_qmul_zero dim_mul_commute [of "dim w" "dim f"])
qed

lemma OtherModel_exact:
  assumes "OtherModel_init d = Inr m" and "check w kg"
  shows "\<exists>f. resolve (other_emission_factors m) Other_GENERIC t = Some f \<and>
           OtherModel_get_carbon m w t n =
             Inr \<lparr>amount = qscale (qmul f w) n, source = OTHER\<rparr> \<and>
           OtherModel_get_carbon m w t 0 =
             Inr \<lparr>amount = \<lparr>magnitude = 0, dim = dim_mul (dim f) (dim w)\<rparr>,
                  source = OTHER\<rparr>"
proof -
  from assms obtain f where
    r: "resolve (other_emission_factors m) Other_GENERIC t = Some f" and
    c: "\<And>k. OtherModel_get_carbon m w t k =
              Inr \<lparr>amount = qscale (qmul w f) k, source = OTHER\<rparr>"
    using OtherModel_get_carbon_resolved [OF OtherModel_init_generic] by blast
  show ?thesis
    using r c [of n] c [of 0] by (simp add: qmul_commute [of w f] qscale_qmul_zero dim_mul_commute [of "dim w" "dim f"])
qed

lemma SwitchModel_exact:
  assumes "SwitchModel_init d = Inr m" and "check w kg"
  shows "\<exists>f. resolve (switch_emission_factors m) Switch_GENERIC t = Some f \<and>
           SwitchModel_get_carbon m w t n =
             Inr \<lparr>amount = qscale (qmul f w) n, source = SWITCH\<rparr> \<and>
           SwitchModel_get_carbon m w t 0 =
             Inr \<lparr>amount = \<lparr>magnitude = 0, dim = dim_mul (dim f) (dim w)\<rparr>,
                  source = SWITCH\<rparr>"
proof -
  from assms obtain f where
    r: "resolve (switch_emission_factors m) Switch_GENERIC t = Some f" and
    c: "\<And>k. SwitchModel_get_carbon m w t k =
              Inr \<lparr>amount = qscale (qmul w f) k, source = SWITCH\<rparr>"
    using SwitchModel_get_carbon_resolved [OF SwitchModel_init_generic] by blast
  show ?thesis
    using r c [of n] c [of 0] by (simp add: qmul_commute [of w f] qscale_qmul_zero dim_mul_commute [of "dim w" "dim f"])
qed

text \<open>
  C1. For each of the five mass-based models, on an instance the constructor returned and
  a weight of the dimension of mass, \<open>get_carbon\<close> returns, for every type \<open>t\<close> of the
  model's enumeration and every integer \<open>n\<close> (so for every \<open>n \<ge> 0\<close>), the carbon value
  whose quantity is \<open>resolve(t) * w * n\<close>; at \<open>n = 0\<close> it returns the quantity of magnitude
  zero in the dimension of factor times weight, and no error.
\<close>

theorem mass_based_get_carbon_exact:
  assumes "check w kg"
  shows "(ActiveModel_init d_active = Inr m_active \<longrightarrow>
            (\<exists>f. resolve (active_emission_factors m_active) Active_GENERIC t_active = Some f \<and>
                 ActiveModel_get_carbon m_active w t_active n =
                   Inr \<lparr>amount = qscale (qmul f w) n, source = ACTIVE\<rparr> \<and>
                 ActiveModel_get_carbon m_active w t_active 0 =
                   Inr \<lparr>amount = \<lparr>magnitude = 0, dim = dim_mul (dim f) (dim w)\<rparr>,
                        source = ACTIVE\<rparr>)) \<and>
         (ConnectorModel_init d_connector = Inr m_connector \<longrightarrow>
            (\<exists>f. resolve (connector_emission_factors m_connector) Connector_PERIPHERAL t_connector = Some f \<and>
                 ConnectorModel_get_carbon m_connector w t_connector n =
                   Inr \<lparr>amount = qscale (qmul f w) n, source = CONNECTOR\<rparr> \<and>
                 ConnectorModel_get_carbon m_connector w t_connector 0 =
                   Inr \<lparr>amount = \<lparr>magnitude = 0, dim = dim_mul (dim f) (dim w)\<rparr>,
                        source = CONNECTOR\<rparr>)) \<and>
         (DiodeModel_init d_diode = Inr m_diode \<longrightarrow>
            (\<exists>f. resolve (diode_emission_factors m_diode) Diode_GENERIC t_diode = Some f \<and>
                 DiodeModel_get_carbon m_diode w t_diode n =
                   Inr \<lparr>amount = qscale (qmul f w) n, source = FABRICATION\<rparr> \<and>
                 DiodeModel_get_carbon m_diode w t_diode 0 =
                   Inr \<lparr>amount = \<lparr>magnitude = 0, dim = dim_mul (dim f) (dim w)\<rparr>,
                        source = FABRICATION\<rparr>)) \<and>
         (OtherModel_init d_other = Inr m_other \<longrightarrow>
            (\<exists>f. resolve (other_emission_factors m_other) Other_GENERIC t_other = Some f \<and>
                 OtherModel_get_carbon m_other w t_other n =
                   Inr \<lparr>amount = qscale (qmul f w) n, source = OTHER\<rparr> \<and>
                 OtherModel_get_carbon m_other w t_other 0 =
                   Inr \<lparr>amount = \<lparr>magnitude = 0, dim = dim_mul (dim f) (dim w)\<rparr>,
                        source = OTHER\<rparr>)) \<and>
         (SwitchModel_init d_switch = Inr m_switch \<longrightarrow>
            (\<exists>f. resolve (switch_emission_factors m_switch) Switch_GENERIC t_switch = Some f \<and>
                 SwitchModel_get_carbon m_switch w t_switch n =
                   Inr \<lparr>amount = qscale (qmul f w) n, source = SWITCH\<rparr> \<and>
                 SwitchModel_get_carbon m_switch w t_switch 0 =
                   Inr \<lparr>amount = \<lparr>magnitude = 0, dim = dim_mul (dim f) (dim w)\<rparr>,
                        source = SWITCH\<rparr>))"
  using assms ActiveModel_exact ConnectorModel_exact DiodeModel_exact OtherModel_exact
    SwitchModel_exact
  by (intro conjI impI) blast+

theorem mass_based_get_carbon_exact_witness:
  "check (qscale g 2) kg \<and>
   ActiveModel_init example_active_doc =
     Inr \<lparr>active_emission_factors =
            [(Active_TRANSISTOR_BJT, dimensionless 50), (Active_ACTIVE_GENERIC, dimensionless 30),
             (Active_GENERIC, dimensionless 30)]\<rparr> \<and>
   ActiveModel_get_carbon
     \<lparr>active_emission_factors =
            [(Active_TRANSISTOR_BJT, dimensionless 50), (Active_ACTIVE_GENERIC, dimensionless 30),
             (Active_GENERIC, dimensionless 30)]\<rparr>
     (qscale g 2) Active_TRANSISTOR_MOSFET 5 =
     Inr \<lparr>amount = \<lparr>magnitude = 3 / 10, dim = dim kg\<rparr>, source = ACTIVE\<rparr> \<and>
   ConnectorModel_init example_connector_doc =
     Inr \<lparr>connector_emission_factors =
            [(Connector_PCI, dimensionless 112), (Connector_PERIPHERAL, dimensionless (938 / 100))]\<rparr> \<and>
   ConnectorModel_get_carbon
     \<lparr>connector_emission_factors =
            [(Connector_PCI, dimensionless 112), (Connector_PERIPHERAL, dimensionless (938 / 100))]\<rparr>
     (qscale g 2) Connector_PCI 5 =
     Inr \<lparr>amount = \<lparr>magnitude = 112 / 100, dim = dim kg\<rparr>, source = CONNECTOR\<rparr> \<and>
   DiodeModel_init example_diode_doc =
     Inr \<lparr>diode_emission_factors =
            [(Diode_GLASS_SMD, dimensionless 20), (Diode_LED, dimensionless 40),
             (Diode_GENERIC, dimensionless 20)]\<rparr> \<and>
   DiodeModel_get_carbon
     \<lparr>diode_emission_factors =
            [(Diode_GLASS_SMD, dimensionless 20), (Diode_LED, dimensionless 40),
             (Diode_GENERIC, dimensionless 20)]\<rparr>
     (qscale g 2) Diode_TRANSISTOR 5 =
     Inr \<lparr>amount = \<lparr>magnitude = 2 / 10, dim = dim kg\<rparr>, source = FABRICATION\<rparr> \<and>
   OtherModel_init example_other_doc =
     Inr \<lparr>other_emission_factors = [(Other_GENERIC, dimensionless 10)]\<rparr> \<and>
   OtherModel_get_carbon \<lparr>other_emission_factors = [(Other_GENERIC, dimensionless 10)]\<rparr>
     (qscale g 2) Other_PASSIVE_GENERIC 0 =
     Inr \<lparr>amount = \<lparr>magnitude = 0, dim = dim kg\<rparr>, source = OTHER\<rparr> \<and>
   SwitchModel_init example_switch_doc =
     Inr \<lparr>switch_emission_factors = [(Switch_GENERIC, dimensionless 6)]\<rparr> \<and>
   SwitchModel_get_carbon \<lparr>switch_emission_factors = [(Switch_GENERIC, dimensionless 6)]\<rparr>
     (qscale g 2) Switch_GENERIC 5 =
     Inr \<lparr>amount = \<lparr>magnitude = 6 / 100, dim = dim kg\<rparr>, source = SWITCH\<rparr>"
  using mass_based_get_carbon_exact
    [where w = "qscale g 2" and n = 5
       and d_active = example_active_doc
       and m_active = "\<lparr>active_emission_factors =
            [(Active_TRANSISTOR_BJT, dimensionless 50), (Active_ACTIVE_GENERIC, dimensionless 30),
             (Active_GENERIC, dimensionless 30)]\<rparr>"
       and t_active = Active_TRANSISTOR_MOSFET
       and d_connector = example_connector_doc
       and m_connector = "\<lparr>connector_emission_factors =
            [(Connector_PCI, dimensionless 112), (Connector_PERIPHERAL, dimensionless (938 / 100))]\<rparr>"
       and t_connector = Connector_PCI
       and d_diode = example_diode_doc
       and m_diode = "\<lparr>diode_emission_factors =
            [(Diode_GLASS_SMD, dimensionless 20), (Diode_LED, dimensionless 40),
             (Diode_GENERIC, dimensionless 20)]\<rparr>"
       and t_diode = Diode_TRANSISTOR
       and d_other = example_other_doc
       and m_other = "\<lparr>other_emission_factors = [(Other_GENERIC, dimensionless 10)]\<rparr>"
       and t_other = Other_PASSIVE_GENERIC
       and d_switch = example_switch_doc
       and m_switch = "\<lparr>switch_emission_factors = [(Switch_GENERIC, dimensionless 6)]\<rparr>"
       and t_switch = Switch_GENERIC]
  by (simp add: example_active_doc_def example_connector_doc_def
        example_diode_doc_def example_other_doc_def example_switch_doc_def unit_defs
        eval_defs ActiveModel_init_def ActiveType_of_def
        ConnectorModel_init_def ConnectorType_of_def DiodeModel_init_def DiodeType_of_def
        OtherModel_init_def OtherType_of_def SwitchModel_init_def SwitchType_of_def)

subsection \<open>PCB: the layer-area path\<close>

text \<open>
  C3. For PCB, when the thickness path does not apply (no thickness is given, or no carbon
  coefficient is configured) and the area has the dimension of an area: a layer count
  with an exact entry in the layer table gives \<open>table[L] * A\<close>; a layer count with no
  entry gives \<open>I * L * A\<close> when the interpolated average \<open>I\<close> is configured; with
  neither, the call exits the process and returns nothing.
\<close>

theorem PCB_layer_area_path:
  assumes "check area mm2" and "thickness = None \<or> carbon_coefficient self = None"
  shows "(map_of (model self) (YInt layers) = Some cpa \<longrightarrow>
            PCBModel_get_carbon self area layers thickness =
              Inr \<lparr>amount = qmul cpa area, source = FABRICATION\<rparr>) \<and>
         (map_of (model self) (YInt layers) = None \<and> interpolated_cpla self = Some cpla \<longrightarrow>
            PCBModel_get_carbon self area layers thickness =
              Inr \<lparr>amount = qmul (qscale cpla layers) area, source = FABRICATION\<rparr>) \<and>
         (map_of (model self) (YInt layers) = None \<and> interpolated_cpla self = None \<longrightarrow>
            PCBModel_get_carbon self area layers thickness = Inl SystemExit)"
  using assms by (auto simp: PCBModel_get_carbon_def split: option.splits)

theorem PCB_layer_area_path_witness:
  "check (qscale mm2 100) mm2 \<and>
   PCBModel_init example_pcb_doc =
     Inr \<lparr>model = [(YInt 2, kg_per_mm2 (3 / 100)), (YInt 4, kg_per_mm2 (5 / 100))],
          typical_thickness = [], carbon_coefficient = None,
          interpolated_cpla = Some (kg_per_mm2 (2 / 100))\<rparr> \<and>
   PCBModel_get_carbon
     \<lparr>model = [(YInt 2, kg_per_mm2 (3 / 100)), (YInt 4, kg_per_mm2 (5 / 100))],
      typical_thickness = [], carbon_coefficient = None,
      interpolated_cpla = Some (kg_per_mm2 (2 / 100))\<rparr> (qscale mm2 100) 4 None =
     Inr \<lparr>amount = mass_kg 5, source = FABRICATION\<rparr> \<and>
   PCBModel_get_carbon
     \<lparr>model = [(YInt 2, kg_per_mm2 (3 / 100)), (YInt 4, kg_per_mm2 (5 / 100))],
      typical_thickness = [], carbon_coefficient = None,
      interpolated_cpla = Some (kg_per_mm2 (2 / 100))\<rparr> (qscale mm2 100) 7 None =
     Inr \<lparr>amount = mass_kg 14, source = FABRICATION\<rparr> \<and>
   PCBModel_init example_pcb_doc_no_cpla =
     Inr \<lparr>model = [(YInt 2, kg_per_mm2 (3 / 100)), (YInt 4, kg_per_mm2 (5 / 100))],
          typical_thickness = [], carbon_coefficient = None, interpolated_cpla = None\<rparr> \<and>
   PCBModel_get_carbon
     \<lparr>model = [(YInt 2, kg_per_mm2 (3 / 100)), (YInt 4, kg_per_mm2 (5 / 100))],
      typical_thickness = [], carbon_coefficient = None, interpolated_cpla = None\<rparr>
     (qscale mm2 100) 99 None = Inl SystemExit"
  using
    PCB_layer_area_path [where area = "qscale mm2 100" and thickness = None and layers = 4
      and cpa = "kg_per_mm2 (5 / 100)"
      and self = "\<lparr>model = [(YInt 2, kg_per_mm2 (3 / 100)), (YInt 4, kg_per_mm2 (5 / 100))],
        typical_thickness = [], carbon_coefficient = None,
        interpolated_cpla = Some (kg_per_mm2 (2 / 100))\<rparr>"]
    PCB_layer_area_path [where area = "qscale mm2 100" and thickness = None and layers = 7
      and cpla = "kg_per_mm2 (2 / 100)"
      and self = "\<lparr>model = [(YInt 2, kg_per_mm2 (3 / 100)), (YInt 4, kg_per_mm2 (5 / 100))],
        typical_thickness = [], carbon_coefficient = None,
        interpolated_cpla = Some (kg_per_mm2 (2 / 100))\<rparr>"]
    PCB_layer_area_path [where area = "qscale mm2 100" and thickness = None and layers = 99
      and self = "\<lparr>model = [(YInt 2, kg_per_mm2 (3 / 100)), (YInt 4, kg_per_mm2 (5 / 100))],
        typical_thickness = [], carbon_coefficient = None, interpolated_cpla = None\<rparr>"]
  by (simp add: example_pcb_doc_def example_pcb_doc_no_cpla_def unit_defs
        eval_defs PCBModel_init_def PCB_load_step_def units_def
        INTERPOLATED_AVERAGE_KEY_def)

subsection \<open>Capacitor: rescue fallback, independence, unchecked weight\<close>

text \<open>
  C4, as stated, fails at quantity zero: the rescue fallback returns the default times
  \<open>n\<close>, which is a zero value when \<open>n = 0\<close>.
\<close>

theorem Capacitor_rescue_zero_counterexample:
  "CapacitorModel_init example_ci_model example_capacitor_doc =
     Inr \<lparr>capacitor_model = [(Capacitor_MLCC, MJ_per_kg 36)],
          package_model = [(Capacitor_PKG_0402, mass_kg (4 / 10000))],
          ci_model = example_ci_model\<rparr> \<and>
   map_of [(Capacitor_PKG_0402, mass_kg (4 / 10000))] Capacitor_TEC = None \<and>
   map_of [(Capacitor_MLCC, MJ_per_kg 36)] Capacitor_TEC = None \<and>
   CapacitorModel_get_carbon
     \<lparr>capacitor_model = [(Capacitor_MLCC, MJ_per_kg 36)],
      package_model = [(Capacitor_PKG_0402, mass_kg (4 / 10000))],
      ci_model = example_ci_model\<rparr> ''JAPAN'' Capacitor_TEC (mass_kg (3 / 100000)) 0 =
     Inr \<lparr>amount = \<lparr>magnitude = 0, dim = dim kg\<rparr>, source = PASSIVES\<rparr>"
  by (simp add: example_capacitor_doc_def unit_defs
        eval_defs CapacitorModel_init_def Capacitor_load_step_def
        CapacitorType_of_def CapacitorModel_get_carbon_def DEFAULT_CARBON_PER_CAPACITOR_def)

text \<open>
  C4 (as amended). For Capacitor, for every type with an entry in neither the package
  table nor the energy table and every quantity \<open>n\<close>, \<open>get_carbon\<close> returns
  \<open>DEFAULT_CARBON_PER_CAPACITOR * n\<close> tagged with the passives category and raises
  nothing; the default is not zero, and the returned value is zero only for \<open>n = 0\<close>.
\<close>

theorem Capacitor_rescue_fallback:
  assumes "\<not> dict_in ctype (package_model self)" and "\<not> dict_in ctype (capacitor_model self)"
  shows "CapacitorModel_get_carbon self ci ctype weight n_caps =
           Inr \<lparr>amount = qscale DEFAULT_CARBON_PER_CAPACITOR n_caps, source = PASSIVES\<rparr> \<and>
         magnitude DEFAULT_CARBON_PER_CAPACITOR \<noteq> 0 \<and>
         (magnitude (qscale DEFAULT_CARBON_PER_CAPACITOR n_caps) = 0 \<longleftrightarrow> n_caps = 0)"
  using assms
  by (simp add: CapacitorModel_get_carbon_def dict_in_def DEFAULT_CARBON_PER_CAPACITOR_def
        qscale_def g_def)

theorem Capacitor_rescue_fallback_witness:
  "\<not> dict_in Capacitor_TEC [(Capacitor_PKG_0402, mass_kg (4 / 10000))] \<and>
   \<not> dict_in Capacitor_TEC [(Capacitor_MLCC, MJ_per_kg 36)] \<and>
   CapacitorModel_get_carbon
     \<lparr>capacitor_model = [(Capacitor_MLCC, MJ_per_kg 36)],
      package_model = [(Capacitor_PKG_0402, mass_kg (4 / 10000))],
      ci_model = example_ci_model\<rparr> ''JAPAN'' Capacitor_TEC (mass_kg (3 / 100000)) 4 =
     Inr \<lparr>amount = mass_kg (12 / 10), source = PASSIVES\<rparr>"
  using Capacitor_rescue_fallback [where ctype = Capacitor_TEC and n_caps = 4
      and ci = "''JAPAN''" and weight = "mass_kg (3 / 100000)"
      and self = "\<lparr>capacitor_model = [(Capacitor_MLCC, MJ_per_kg 36)],
        package_model = [(Capacitor_PKG_0402, mass_kg (4 / 10000))],
        ci_model = example_ci_model\<rparr>"]
  by (simp add: unit_defs
        eval_defs DEFAULT_CARBON_PER_CAPACITOR_def)

text \<open>
  C10. For Capacitor, when the requested type has an entry in the package table, and when
  it has an entry in neither table (the rescue fallback), two calls that differ only in
  the weight and the location return the same carbon value: those arguments are read
  in the energy-based branch only.
\<close>

theorem Capacitor_package_rescue_independent:
  assumes "dict_in ctype (package_model self) \<or>
           (\<not> dict_in ctype (package_model self) \<and> \<not> dict_in ctype (capacitor_model self))"
  shows "CapacitorModel_get_carbon self ci ctype weight n_caps =
         CapacitorModel_get_carbon self ci' ctype weight' n_caps"
  using assms
  by (auto simp: CapacitorModel_get_carbon_def dict_in_def split: option.splits)

theorem Capacitor_package_rescue_independent_witness:
  "dict_in Capacitor_PKG_0402 [(Capacitor_PKG_0402, mass_kg (4 / 10000))] \<and>
   CapacitorModel_get_carbon
     \<lparr>capacitor_model = [(Capacitor_MLCC, MJ_per_kg 36)],
      package_model = [(Capacitor_PKG_0402, mass_kg (4 / 10000))],
      ci_model = example_ci_model\<rparr> ''JAPAN'' Capacitor_PKG_0402 (mass_kg (3 / 100000)) 4 =
   CapacitorModel_get_carbon
     \<lparr>capacitor_model = [(Capacitor_MLCC, MJ_per_kg 36)],
      package_model = [(Capacitor_PKG_0402, mass_kg (4 / 10000))],
      ci_model = example_ci_model\<rparr> ''TAIWAN'' Capacitor_PKG_0402 (mass_kg 7) 4 \<and>
   \<not> dict_in Capacitor_TEC [(Capacitor_PKG_0402, mass_kg (4 / 10000))] \<and>
   \<not> dict_in Capacitor_TEC [(Capacitor_MLCC, MJ_per_kg 36)] \<and>
   CapacitorModel_get_carbon
     \<lparr>capacitor_model = [(Capacitor_MLCC, MJ_per_kg 36)],
      package_model = [(Capacitor_PKG_0402, mass_kg (4 / 10000))],
      ci_model = example_ci_model\<rparr> ''JAPAN'' Capacitor_TEC (mass_kg (3 / 100000)) 4 =
   CapacitorModel_get_carbon
     \<lparr>capacitor_model = [(Capacitor_MLCC, MJ_per_kg 36)],
      package_model = [(Capacitor_PKG_0402, mass_kg (4 / 10000))],
      ci_model = example_ci_model\<rparr> ''ICELAND'' Capacitor_TEC (mass_kg 7) 4"
  using
    Capacitor_package_rescue_independent [where ctype = Capacitor_PKG_0402 and n_caps = 4
      and ci = "''JAPAN''" and weight = "mass_kg (3 / 100000)"
      and ci' = "''TAIWAN''" and weight' = "mass_kg 7"
      and self = "\<lparr>capacitor_model = [(Capacitor_MLCC, MJ_per_kg 36)],
        package_model = [(Capacitor_PKG_0402, mass_kg (4 / 10000))],
        ci_model = example_ci_model\<rparr>"]
    Capacitor_package_rescue_independent [where ctype = Capacitor_TEC and n_caps = 4
      and ci = "''JAPAN''" and weight = "mass_kg (3 / 100000)"
      and ci' = "''ICELAND''" and weight' = "mass_kg 7"
      and self = "\<lparr>capacitor_model = [(Capacitor_MLCC, MJ_per_kg 36)],
        package_model = [(Capacitor_PKG_0402, mass_kg (4 / 10000))],
        ci_model = example_ci_model\<rparr>"]
  by (simp add: dict_in_def)

text \<open>
  C6. Seven of the eight models that take a weight or an area assert its dimension;
  \<open>CapacitorModel.get_carbon\<close> has no such assertion. Given a length as the weight it
  returns the package factor for a package type, and for an energy-based type a carbon
  value whose dimension is a length.
\<close>

theorem Capacitor_accepts_wrong_dimension:
  "\<not> check (length_mm 5) kg \<and>
   CapacitorModel_init example_ci_model example_capacitor_doc =
     Inr \<lparr>capacitor_model = [(Capacitor_MLCC, MJ_per_kg 36)],
          package_model = [(Capacitor_PKG_0402, mass_kg (4 / 10000))],
          ci_model = example_ci_model\<rparr> \<and>
   CapacitorModel_get_carbon
     \<lparr>capacitor_model = [(Capacitor_MLCC, MJ_per_kg 36)],
      package_model = [(Capacitor_PKG_0402, mass_kg (4 / 10000))],
      ci_model = example_ci_model\<rparr> ''JAPAN'' Capacitor_PKG_0402 (length_mm 5) 1 =
     Inr \<lparr>amount = mass_kg (4 / 10000), source = PASSIVES\<rparr> \<and>
   CapacitorModel_get_carbon
     \<lparr>capacitor_model = [(Capacitor_MLCC, MJ_per_kg 36)],
      package_model = [(Capacitor_PKG_0402, mass_kg (4 / 10000))],
      ci_model = example_ci_model\<rparr> ''JAPAN'' Capacitor_MLCC (length_mm 5) 1 =
     Inr \<lparr>amount = length_mm 25, source = PASSIVES\<rparr>"
  by (simp add: example_capacitor_doc_def example_ci_model_def unit_defs
        eval_defs CapacitorModel_init_def Capacitor_load_step_def
        CapacitorType_of_def CapacitorModel_get_carbon_def)

subsection \<open>Inductor: the empty package table\<close>

text \<open>
  C7. The Inductor constructor accepts a document with a weight-based factor only, which
  leaves the package table empty. A call with a package type and no weight then evaluates
  \<open>list(values)[0]\<close> on the empty table and raises IndexError instead of falling back.
\<close>

theorem Inductor_empty_package_table_raises:
  "InductorModel_init example_inductor_weight_doc =
     Inr \<lparr>weight_based_factor = Some (dimensionless 15), package_emission_factors = []\<rparr> \<and>
   InductorModel_get_carbon
     \<lparr>weight_based_factor = Some (dimensionless 15), package_emission_factors = []\<rparr>
     5 Inductor_PKG_0402 None = Inl IndexError"
  by (simp add: example_inductor_weight_doc_def unit_defs
        eval_defs InductorModel_init_def Inductor_load_step_def
        InductorType_of_def InductorModel_get_carbon_def is_package_type_def get_or_first_def)

subsection \<open>Sums of unit calls\<close>

lemma qadd_qscale: "qadd (qscale q a) (qscale q b) = Inr (qscale q (a + b))"
  by (simp add: qadd_def qscale_def algebra_simps)

lemma add_all_replicate:
  "add_all (qscale q j) (replicate k (qscale q 1)) = Inr (qscale q (j + int k))"
proof (induction k arbitrary: j)
  case 0
  show ?case by simp
next
  case (Suc k)
  have "add_all (qscale q j) (replicate (Suc k) (qscale q 1)) =
          add_all (qscale q (j + 1)) (replicate k (qscale q 1))"
    by (simp add: qadd_qscale)
  also have "\<dots> = Inr (qscale q (j + 1 + int k))"
    by (rule Suc.IH)
  also have "j + 1 + int k = j + int (Suc k)"
    by simp
  finally show ?case .
qed

lemma sum_of_unit_calls:
  assumes "1 \<le> n"
  shows "sum_of_calls (nat n) (Inr \<lparr>amount = qscale q 1, source = s\<rparr>) = Inr (qscale q n)"
proof -
  have "sum_of_calls (nat n) (Inr \<lparr>amount = qscale q 1, source = s\<rparr>) =
          Inr (qscale q (1 + int (nat n - 1)))"
    by (simp add: sum_of_calls_def add_all_replicate)
  moreover have "1 + int (nat n - 1) = n"
    using assms by simp
  ultimately show ?thesis by simp
qed

lemma ResistorModel_init_not_Nil:
  "ResistorModel_init d = Inr m \<Longrightarrow> resistor_emission_factors m \<noteq> []"
  by (auto simp: ResistorModel_init_def Let_def dict_set_not_Nil split: if_splits option.splits)

lemma get_or_first_Cons:
  "get_or_first ((k0, v0) # d) k =
     Inr (case map_of ((k0, v0) # d) k of Some f \<Rightarrow> f | None \<Rightarrow> v0)"
  by (simp add: get_or_first_def)

lemma ResistorModel_get_carbon_resolved:
  assumes "resistor_emission_factors m \<noteq> []"
  shows "\<exists>f. \<forall>n. ResistorModel_get_carbon m n targ =
                  Inr \<lparr>amount = qscale f n, source = FABRICATION\<rparr>"
proof -
  from assms obtain k0 v0 rest where ef: "resistor_emission_factors m = (k0, v0) # rest"
    by (cases "resistor_emission_factors m") auto
  show ?thesis
    unfolding ResistorModel_get_carbon_def Let_def ef get_or_first_Cons
    by (cases "dict_in (case targ of None \<Rightarrow> Resistor_PKG_0805 | Some t \<Rightarrow> t) ((k0, v0) # rest)")
       (auto simp: dict_in_def dict_index_def simp del: map_of.simps)
qed

lemma sum_of_calls_linear:
  assumes "1 \<le> n" and "\<And>k. call k = Inr \<lparr>amount = qscale q k, source = s\<rparr>"
  shows "\<exists>c. call n = Inr c \<and> sum_of_calls (nat n) (call 1) = Inr (amount c)"
  using assms(1) by (simp add: assms(2) sum_of_unit_calls)

lemma ActiveModel_unit_calls:
  assumes "ActiveModel_init d = Inr m" and "check w kg" and "1 \<le> n"
  shows "\<exists>c. ActiveModel_get_carbon m w t n = Inr c \<and>
           sum_of_calls (nat n) (ActiveModel_get_carbon m w t 1) = Inr (amount c)"
proof -
  from assms(1,2) obtain f where
    "\<And>k. ActiveModel_get_carbon m w t k =
            Inr \<lparr>amount = qscale (qmul w f) k, source = ACTIVE\<rparr>"
    using ActiveModel_get_carbon_resolved [OF ActiveModel_init_generic] by blast
  then show ?thesis
    by (rule sum_of_calls_linear [OF assms(3)])
qed

lemma ConnectorModel_unit_calls:
  assumes "ConnectorModel_init d = Inr m" and "check w kg" and "1 \<le> n"
  shows "\<exists>c. ConnectorModel_get_carbon m w t n = Inr c \<and>
           sum_of_calls (nat n) (ConnectorModel_get_carbon m w t 1) = Inr (amount c)"
proof -
  from assms(1,2) obtain f where
    "\<And>k. ConnectorModel_get_carbon m w t k =
            Inr \<lparr>amount = qscale (qmul w f) k, source = CONNECTOR\<rparr>"
    using ConnectorModel_get_carbon_resolved [OF ConnectorModel_init_generic] by blast
  then show ?thesis
    by (rule sum_of_calls_linear [OF assms(3)])
qed

lemma DiodeModel_unit_calls:
  assumes "DiodeModel_init d = Inr m" and "check w kg" and "1 \<le> n"
  shows "\<exists>c. DiodeModel_get_carbon m w t n = Inr c \<and>
           sum_of_calls (nat n) (DiodeModel_get_carbon m w t 1) = Inr (amount c)"
proof -
  from assms(1,2) obtain f where
    "\<And>k. DiodeModel_get_carbon m w t k =
            Inr \<lparr>amount = qscale (qmul w f) k, source = FABRICATION\<rparr>"
    using DiodeModel_get_carbon_resolved [OF DiodeModel_init_generic] by blast
  then show ?thesis
    by (rule sum_of_calls_linear [OF assms(3)])
qed

lemma OtherModel_unit_calls:
  assumes "OtherModel_init d = Inr m" and "check w kg" and "1 \<le> n"
  shows "\<exists>c. OtherModel_get_carbon m w t n = Inr c \<and>
           sum_of_calls (nat n) (OtherModel_get_carbon m w t 1) = Inr (amount c)"
proof -
  from assms(1,2) obtain f where
    "\<And>k. OtherModel_get_carbon m w t k =
            Inr \<lparr>amount = qscale (qmul w f) k, source = OTHER\<rparr>"
    using OtherModel_get_carbon_resolved [OF OtherModel_init_generic] by blast
  then show ?thesis
    by (rule sum_of_calls_linear [OF assms(3)])
qed

lemma SwitchModel_unit_calls:
  assumes "SwitchModel_init d = Inr m" and "check w kg" and "1 \<le> n"
  shows "\<exists>c. SwitchModel_get_carbon m w t n = Inr c \<and>
           sum_of_calls (nat n) (SwitchModel_get_carbon m w t 1) = Inr (amount c)"
proof -
  from assms(1,2) obtain f where
    "\<And>k. SwitchModel_get_carbon m w t k =
            Inr \<lparr>amount = qscale (qmul w f) k, source = SWITCH\<rparr>"
    using SwitchModel_get_carbon_resolved [OF SwitchModel_init_generic] by blast
  then show ?thesis
    by (rule sum_of_calls_linear [OF assms(3)])
qed

lemma ResistorModel_unit_calls:
  assumes "ResistorModel_init d = Inr m" and "1 \<le> n"
  shows "\<exists>c. ResistorModel_get_carbon m n targ = Inr c \<and>
           sum_of_calls (nat n) (ResistorModel_get_carbon m 1 targ) = Inr (amount c)"
proof -
  from assms(1) obtain f where
    "\<And>k. ResistorModel_get_carbon m k targ =
            Inr \<lparr>amount = qscale f k, source = FABRICATION\<rparr>"
    using ResistorModel_get_carbon_resolved [OF ResistorModel_init_not_Nil] by blast
  then show ?thesis
    by (rule sum_of_calls_linear [OF assms(2)])
qed

text \<open>
  C9 (as amended). For the five mass-based models and the Resistor model, on a constructed
  instance, with the weight (a mass) and the type held fixed and \<open>n \<ge> 1\<close>: when the
  magnitudes are added and multiplied exactly (Python int or Fraction magnitudes, on
  which no operation rounds), adding up the carbon quantities of \<open>n\<close> calls of quantity
  1 succeeds and gives the carbon quantity of the one call of quantity \<open>n\<close>.
\<close>

theorem unit_calls_sum_to_one_call:
  assumes "1 \<le> n" and "check w kg"
  shows "(ActiveModel_init d_active = Inr m_active \<longrightarrow>
            (\<exists>c. ActiveModel_get_carbon m_active w t_active n = Inr c \<and>
                 sum_of_calls (nat n) (ActiveModel_get_carbon m_active w t_active 1) = Inr (amount c))) \<and>
         (ConnectorModel_init d_connector = Inr m_connector \<longrightarrow>
            (\<exists>c. ConnectorModel_get_carbon m_connector w t_connector n = Inr c \<and>
                 sum_of_calls (nat n) (ConnectorModel_get_carbon m_connector w t_connector 1) = Inr (amount c))) \<and>
         (DiodeModel_init d_diode = Inr m_diode \<longrightarrow>
            (\<exists>c. DiodeModel_get_carbon m_diode w t_diode n = Inr c \<and>
                 sum_of_calls (nat n) (DiodeModel_get_carbon m_diode w t_diode 1) = Inr (amount c))) \<and>
         (OtherModel_init d_other = Inr m_other \<longrightarrow>
            (\<exists>c. OtherModel_get_carbon m_other w t_other n = Inr c \<and>
                 sum_of_calls (nat n) (OtherModel_get_carbon m_other w t_other 1) = Inr (amount c))) \<and>
         (SwitchModel_init d_switch = Inr m_switch \<longrightarrow>
            (\<exists>c. SwitchModel_get_carbon m_switch w t_switch n = Inr c \<and>
                 sum_of_calls (nat n) (SwitchModel_get_carbon m_switch w t_switch 1) = Inr (amount c))) \<and>
         (ResistorModel_init d_resistor = Inr m_resistor \<longrightarrow>
            (\<exists>c. ResistorModel_get_carbon m_resistor n t_resistor = Inr c \<and>
                 sum_of_calls (nat n) (ResistorModel_get_carbon m_resistor 1 t_resistor) =
                   Inr (amount c)))"
  using assms ActiveModel_unit_calls ConnectorModel_unit_calls DiodeModel_unit_calls
    OtherModel_unit_calls SwitchModel_unit_calls ResistorModel_unit_calls
  by (intro conjI impI) blast+

theorem unit_calls_sum_to_one_call_witness:
  "(1::int) \<le> 3 \<and> check (qscale g 2) kg \<and>
   ActiveModel_init example_active_doc =
     Inr \<lparr>active_emission_factors =
            [(Active_TRANSISTOR_BJT, dimensionless 50), (Active_ACTIVE_GENERIC, dimensionless 30),
             (Active_GENERIC, dimensionless 30)]\<rparr> \<and>
   sum_of_calls 3 (ActiveModel_get_carbon
     \<lparr>active_emission_factors =
            [(Active_TRANSISTOR_BJT, dimensionless 50), (Active_ACTIVE_GENERIC, dimensionless 30),
             (Active_GENERIC, dimensionless 30)]\<rparr>
     (qscale g 2) Active_TRANSISTOR_BJT 1) = Inr (mass_kg (3 / 10)) \<and>
   ConnectorModel_init example_connector_doc =
     Inr \<lparr>connector_emission_factors =
            [(Connector_PCI, dimensionless 112), (Connector_PERIPHERAL, dimensionless (938 / 100))]\<rparr> \<and>
   sum_of_calls 3 (ConnectorModel_get_carbon
     \<lparr>connector_emission_factors =
            [(Connector_PCI, dimensionless 112), (Connector_PERIPHERAL, dimensionless (938 / 100))]\<rparr>
     (qscale g 2) Connector_PCI 1) = Inr (mass_kg (672 / 1000)) \<and>
   DiodeModel_init example_diode_doc =
     Inr \<lparr>diode_emission_factors =
            [(Diode_GLASS_SMD, dimensionless 20), (Diode_LED, dimensionless 40),
             (Diode_GENERIC, dimensionless 20)]\<rparr> \<and>
   sum_of_calls 3 (DiodeModel_get_carbon
     \<lparr>diode_emission_factors =
            [(Diode_GLASS_SMD, dimensionless 20), (Diode_LED, dimensionless 40),
             (Diode_GENERIC, dimensionless 20)]\<rparr>
     (qscale g 2) Diode_LED 1) = Inr (mass_kg (24 / 100)) \<and>
   OtherModel_init example_other_doc =
     Inr \<lparr>other_emission_factors = [(Other_GENERIC, dimensionless 10)]\<rparr> \<and>
   sum_of_calls 3 (OtherModel_get_carbon
     \<lparr>other_emission_factors = [(Other_GENERIC, dimensionless 10)]\<rparr>
     (qscale g 2) Other_GENERIC 1) = Inr (mass_kg (6 / 100)) \<and>
   SwitchModel_init example_switch_doc =
     Inr \<lparr>switch_emission_factors = [(Switch_GENERIC, dimensionless 6)]\<rparr> \<and>
   sum_of_calls 3 (SwitchModel_get_carbon
     \<lparr>switch_emission_factors = [(Switch_GENERIC, dimensionless 6)]\<rparr>
     (qscale g 2) Switch_GENERIC 1) = Inr (mass_kg (36 / 1000)) \<and>
   ResistorModel_init example_resistor_doc =
     Inr \<lparr>resistor_emission_factors =
            [(Resistor_PKG_0402, mass_kg (2 / 10000)), (Resistor_PKG_0805, mass_kg (5 / 10000)),
             (Resistor_GENERIC, mass_kg (9 / 10000))]\<rparr> \<and>
   sum_of_calls 3 (ResistorModel_get_carbon
     \<lparr>resistor_emission_factors =
            [(Resistor_PKG_0402, mass_kg (2 / 10000)), (Resistor_PKG_0805, mass_kg (5 / 10000)),
             (Resistor_GENERIC, mass_kg (9 / 10000))]\<rparr> 1 (Some Resistor_PKG_0402)) =
     Inr (mass_kg (6 / 10000))"
  using unit_calls_sum_to_one_call
    [where w = "qscale g 2" and n = 3
       and d_active = example_active_doc
       and m_active = "\<lparr>active_emission_factors =
            [(Active_TRANSISTOR_BJT, dimensionless 50), (Active_ACTIVE_GENERIC, dimensionless 30),
             (Active_GENERIC, dimensionless 30)]\<rparr>"
       and t_active = Active_TRANSISTOR_BJT
       and d_connector = example_connector_doc
       and m_connector = "\<lparr>connector_emission_factors =
            [(Connector_PCI, dimensionless 112), (Connector_PERIPHERAL, dimensionless (938 / 100))]\<rparr>"
       and t_connector = Connector_PCI
       and d_diode = example_diode_doc
       and m_diode = "\<lparr>diode_emission_factors =
            [(Diode_GLASS_SMD, dimensionless 20), (Diode_LED, dimensionless 40),
             (Diode_GENERIC, dimensionless 20)]\<rparr>"
       and t_diode = Diode_LED
       and d_other = example_other_doc
       and m_other = "\<lparr>other_emission_factors = [(Other_GENERIC, dimensionless 10)]\<rparr>"
       and t_other = Other_GENERIC
       and d_switch = example_switch_doc
       and m_switch = "\<lparr>switch_emission_factors = [(Switch_GENERIC, dimensionless 6)]\<rparr>"
       and t_switch = Switch_GENERIC
       and d_resistor = example_resistor_doc
       and m_resistor = "\<lparr>resistor_emission_factors =
            [(Resistor_PKG_0402, mass_kg (2 / 10000)), (Resistor_PKG_0805, mass_kg (5 / 10000)),
             (Resistor_GENERIC, mass_kg (9 / 10000))]\<rparr>"
       and t_resistor = "Some Resistor_PKG_0402"]
  by (simp add: example_active_doc_def example_connector_doc_def
        example_diode_doc_def example_other_doc_def example_switch_doc_def example_resistor_doc_def
        unit_defs
        eval_defs ActiveModel_init_def
        ActiveType_of_def ConnectorModel_init_def ConnectorType_of_def DiodeModel_init_def
        DiodeType_of_def OtherModel_init_def OtherType_of_def SwitchModel_init_def
        SwitchType_of_def ResistorModel_init_def ResistorType_of_def
        ActiveModel_get_carbon_def ConnectorModel_get_carbon_def DiodeModel_get_carbon_def
        OtherModel_get_carbon_def SwitchModel_get_carbon_def ResistorModel_get_carbon_def)

subsection \<open>Sums of unit calls on float magnitudes\<close>

lemma binade_numeral:
  "binade (numeral k) x =
     (if 2 \<le> x then binade (pred_numeral k) (x / 2) + 1
      else if x < 1 then binade (pred_numeral k) (x * 2) - 1
      else 0)"
  by (simp add: numeral_eq_Suc)

lemma floor_rat_numeral:
  "\<lfloor>(numeral a :: rat) / numeral b\<rfloor> = numeral a div numeral b"
  using floor_divide_of_int_eq [of "numeral a" "numeral b", where ?'a = rat] by simp

lemma replicate_numeral: "replicate (numeral k) x = x # replicate (pred_numeral k) x"
  by (simp add: numeral_eq_Suc)

lemmas float_eval = binary64_def round_positive_def round_in_binade_def round_with_ulp_def
  scale_mantissa_def binade_numeral pow2_def round_half_even_def Let_def
  qscale_float_def qadd_float_def floor_rat_numeral replicate_numeral

text \<open>
  C9, as stated, fails on float magnitudes, where each sum and product is rounded. For a
  Resistor instance built from \<^verbatim>\<open>"0805": "0.0005 kg"\<close>, ten calls of quantity 1 add up
  to the double \<^verbatim>\<open>0.005000000000000001\<close>, and the one call of quantity 10 returns the
  double \<^verbatim>\<open>0.005\<close>.
\<close>

theorem Resistor_float_unit_calls_counterexample:
  "binary64 (5 / 10000) = Some (1152921504606847 / 2305843009213693952) \<and>
   ResistorModel_init example_resistor_float_doc =
     Inr \<lparr>resistor_emission_factors =
            [(Resistor_PKG_0805, mass_kg (1152921504606847 / 2305843009213693952)),
             (Resistor_GENERIC, mass_kg (1152921504606847 / 2305843009213693952))]\<rparr> \<and>
   ResistorModel_get_carbon_float
     \<lparr>resistor_emission_factors =
            [(Resistor_PKG_0805, mass_kg (1152921504606847 / 2305843009213693952)),
             (Resistor_GENERIC, mass_kg (1152921504606847 / 2305843009213693952))]\<rparr> 1 None =
     Inr \<lparr>amount = mass_kg (1152921504606847 / 2305843009213693952), source = FABRICATION\<rparr> \<and>
   sum_of_calls_float 10
     (ResistorModel_get_carbon_float
        \<lparr>resistor_emission_factors =
            [(Resistor_PKG_0805, mass_kg (1152921504606847 / 2305843009213693952)),
             (Resistor_GENERIC, mass_kg (1152921504606847 / 2305843009213693952))]\<rparr> 1 None) =
     Inr (mass_kg (1441151880758559 / 288230376151711744)) \<and>
   ResistorModel_get_carbon_float
     \<lparr>resistor_emission_factors =
            [(Resistor_PKG_0805, mass_kg (1152921504606847 / 2305843009213693952)),
             (Resistor_GENERIC, mass_kg (1152921504606847 / 2305843009213693952))]\<rparr> 10 None =
     Inr \<lparr>amount = mass_kg (5764607523034235 / 1152921504606846976), source = FABRICATION\<rparr> \<and>
   mass_kg (1441151880758559 / 288230376151711744) \<noteq>
   mass_kg (5764607523034235 / 1152921504606846976)"
  by (simp add: float_eval example_resistor_float_doc_def mass_kg_def eval_defs
        ResistorModel_init_def ResistorType_of_def ResistorModel_get_carbon_float_def
        sum_of_calls_float_def)

subsection \<open>Resistor: the 0805 default\<close>

text \<open>
  C8 (as amended). For Resistor, on a constructed instance whose table has an entry for the
  0805 package: a call with no explicit type, and a call with any type absent from the
  table, both return the 0805 factor times \<open>n\<close> (whatever the GENERIC entry holds). On an
  instance with no 0805 entry the factor used in both cases is the first entry of the
  table.
\<close>

theorem Resistor_default_is_0805:
  assumes "ResistorModel_init d = Inr m"
  shows "(map_of (resistor_emission_factors m) Resistor_PKG_0805 = Some f \<longrightarrow>
            ResistorModel_get_carbon m n None =
              Inr \<lparr>amount = qscale f n, source = FABRICATION\<rparr> \<and>
            (\<not> dict_in t (resistor_emission_factors m) \<longrightarrow>
               ResistorModel_get_carbon m n (Some t) =
                 Inr \<lparr>amount = qscale f n, source = FABRICATION\<rparr>)) \<and>
         (map_of (resistor_emission_factors m) Resistor_PKG_0805 = None \<longrightarrow>
            (\<exists>k0 f0 rest. resistor_emission_factors m = (k0, f0) # rest \<and>
               ResistorModel_get_carbon m n None =
                 Inr \<lparr>amount = qscale f0 n, source = FABRICATION\<rparr> \<and>
               (\<not> dict_in t (resistor_emission_factors m) \<longrightarrow>
                  ResistorModel_get_carbon m n (Some t) =
                    Inr \<lparr>amount = qscale f0 n, source = FABRICATION\<rparr>)))"
proof -
  from ResistorModel_init_not_Nil [OF assms] obtain k0 f0 rest
    where ef: "resistor_emission_factors m = (k0, f0) # rest"
    by (cases "resistor_emission_factors m") auto
  show ?thesis
    unfolding ResistorModel_get_carbon_def Let_def ef get_or_first_Cons
    by (auto simp: dict_in_def dict_index_def simp del: map_of.simps)
qed

theorem Resistor_default_is_0805_witness:
  "ResistorModel_init example_resistor_doc =
     Inr \<lparr>resistor_emission_factors =
            [(Resistor_PKG_0402, mass_kg (2 / 10000)), (Resistor_PKG_0805, mass_kg (5 / 10000)),
             (Resistor_GENERIC, mass_kg (9 / 10000))]\<rparr> \<and>
   ResistorModel_get_carbon
     \<lparr>resistor_emission_factors =
            [(Resistor_PKG_0402, mass_kg (2 / 10000)), (Resistor_PKG_0805, mass_kg (5 / 10000)),
             (Resistor_GENERIC, mass_kg (9 / 10000))]\<rparr> 4 None =
     Inr \<lparr>amount = mass_kg (20 / 10000), source = FABRICATION\<rparr> \<and>
   ResistorModel_get_carbon
     \<lparr>resistor_emission_factors =
            [(Resistor_PKG_0402, mass_kg (2 / 10000)), (Resistor_PKG_0805, mass_kg (5 / 10000)),
             (Resistor_GENERIC, mass_kg (9 / 10000))]\<rparr> 4 (Some Resistor_PKG_0603) =
     Inr \<lparr>amount = mass_kg (20 / 10000), source = FABRICATION\<rparr> \<and>
   ResistorModel_init example_resistor_doc_no_0805 =
     Inr \<lparr>resistor_emission_factors =
            [(Resistor_PKG_0402, mass_kg (2 / 10000)), (Resistor_GENERIC, mass_kg (9 / 10000))]\<rparr> \<and>
   ResistorModel_get_carbon
     \<lparr>resistor_emission_factors =
            [(Resistor_PKG_0402, mass_kg (2 / 10000)), (Resistor_GENERIC, mass_kg (9 / 10000))]\<rparr>
     4 (Some Resistor_PKG_0603) =
     Inr \<lparr>amount = mass_kg (8 / 10000), source = FABRICATION\<rparr>"
  using
    Resistor_default_is_0805 [where d = example_resistor_doc and n = 4
      and f = "mass_kg (5 / 10000)" and t = Resistor_PKG_0603
      and m = "\<lparr>resistor_emission_factors =
            [(Resistor_PKG_0402, mass_kg (2 / 10000)), (Resistor_PKG_0805, mass_kg (5 / 10000)),
             (Resistor_GENERIC, mass_kg (9 / 10000))]\<rparr>"]
    Resistor_default_is_0805 [where d = example_resistor_doc_no_0805 and n = 4
      and t = Resistor_PKG_0603
      and m = "\<lparr>resistor_emission_factors =
            [(Resistor_PKG_0402, mass_kg (2 / 10000)), (Resistor_GENERIC, mass_kg (9 / 10000))]\<rparr>"]
  by (simp add: example_resistor_doc_def example_resistor_doc_no_0805_def
        unit_defs
        eval_defs ResistorModel_init_def ResistorType_of_def)

text \<open>
  C8, as stated, fails on an instance built from a document with no 0805 entry: both the
  call with no type and the call with an absent type use the first factor of the table
  (here the 0402 factor), and there is no 0805 factor.
\<close>

theorem Resistor_without_0805_counterexample:
  "ResistorModel_init example_resistor_doc_no_0805 =
     Inr \<lparr>resistor_emission_factors =
            [(Resistor_PKG_0402, mass_kg (2 / 10000)), (Resistor_GENERIC, mass_kg (9 / 10000))]\<rparr> \<and>
   map_of [(Resistor_PKG_0402, mass_kg (2 / 10000)), (Resistor_GENERIC, mass_kg (9 / 10000))]
     Resistor_PKG_0805 = None \<and>
   ResistorModel_get_carbon
     \<lparr>resistor_emission_factors =
            [(Resistor_PKG_0402, mass_kg (2 / 10000)), (Resistor_GENERIC, mass_kg (9 / 10000))]\<rparr>
     4 None =
     Inr \<lparr>amount = qscale (mass_kg (2 / 10000)) 4, source = FABRICATION\<rparr> \<and>
   ResistorModel_get_carbon
     \<lparr>resistor_emission_factors =
            [(Resistor_PKG_0402, mass_kg (2 / 10000)), (Resistor_GENERIC, mass_kg (9 / 10000))]\<rparr>
     4 (Some Resistor_PKG_0603) =
     Inr \<lparr>amount = qscale (mass_kg (2 / 10000)) 4, source = FABRICATION\<rparr>"
  by (simp add: example_resistor_doc_no_0805_def unit_defs
        eval_defs ResistorModel_init_def ResistorType_of_def
        ResistorModel_get_carbon_def get_or_first_def)

subsection \<open>Inductor: mode selection\<close>

text \<open>
  C2 (as amended). For Inductor the mode is fixed by the arguments, the weight first.
  With no weight and a package type (one of the four packages or GENERIC) the result is a
  factor of the package table times \<open>n\<close>: the entry of the type, else the 0805 entry, else
  the first entry of a table that is not empty. With a weight supplied the type plays no
  part: the call aborts on a weight that is not a mass, returns zero kg when no
  weight-based factor is configured, and otherwise returns weight times the weight-based
  factor times \<open>n\<close>.
\<close>

theorem Inductor_mode_selection:
  "(is_package_type t \<and> map_of (package_emission_factors self) t = Some f \<longrightarrow>
      InductorModel_get_carbon self n t None =
        Inr \<lparr>amount = qscale f n, source = INDUCTOR\<rparr>) \<and>
   (is_package_type t \<and> map_of (package_emission_factors self) t = None \<and>
    map_of (package_emission_factors self) Inductor_PKG_0805 = Some f \<longrightarrow>
      InductorModel_get_carbon self n t None =
        Inr \<lparr>amount = qscale f n, source = INDUCTOR\<rparr>) \<and>
   (is_package_type t \<and> map_of (package_emission_factors self) t = None \<and>
    map_of (package_emission_factors self) Inductor_PKG_0805 = None \<and>
    package_emission_factors self = (kfirst, f) # rest \<longrightarrow>
      InductorModel_get_carbon self n t None =
        Inr \<lparr>amount = qscale f n, source = INDUCTOR\<rparr>) \<and>
   InductorModel_get_carbon self n t (Some x) =
     (if \<not> check x kg then Inl AssertionError
      else case weight_based_factor self of
             None \<Rightarrow> Inr \<lparr>amount = qscale kg 0, source = INDUCTOR\<rparr>
           | Some wbf \<Rightarrow> Inr \<lparr>amount = qscale (qmul x wbf) n, source = INDUCTOR\<rparr>) \<and>
   InductorModel_get_carbon self n t (Some x) = InductorModel_get_carbon self n t' (Some x)"
proof -
  have nonempty: "map_of d k = Some v \<Longrightarrow> \<exists>k1 v1 r. d = (k1, v1) # r"
    for d :: "(InductorType \<times> quantity) list" and k v
    by (cases d) auto
  have a: "is_package_type t \<and> map_of (package_emission_factors self) t = Some f \<longrightarrow>
             InductorModel_get_carbon self n t None =
               Inr \<lparr>amount = qscale f n, source = INDUCTOR\<rparr>"
    by (simp add: InductorModel_get_carbon_def dict_in_def dict_index_def)
  have b: "is_package_type t \<and> map_of (package_emission_factors self) t = None \<and>
           map_of (package_emission_factors self) Inductor_PKG_0805 = Some f \<longrightarrow>
             InductorModel_get_carbon self n t None =
               Inr \<lparr>amount = qscale f n, source = INDUCTOR\<rparr>"
  proof (intro impI, elim conjE)
    assume h: "is_package_type t" "map_of (package_emission_factors self) t = None"
      "map_of (package_emission_factors self) Inductor_PKG_0805 = Some f"
    from nonempty [OF h(3)] obtain k1 v1 r
      where ef: "package_emission_factors self = (k1, v1) # r" by blast
    show "InductorModel_get_carbon self n t None =
            Inr \<lparr>amount = qscale f n, source = INDUCTOR\<rparr>"
      using h unfolding InductorModel_get_carbon_def ef get_or_first_Cons
      by (simp add: dict_in_def del: map_of.simps)
  qed
  have c: "is_package_type t \<and> map_of (package_emission_factors self) t = None \<and>
           map_of (package_emission_factors self) Inductor_PKG_0805 = None \<and>
           package_emission_factors self = (kfirst, f) # rest \<longrightarrow>
             InductorModel_get_carbon self n t None =
               Inr \<lparr>amount = qscale f n, source = INDUCTOR\<rparr>"
  proof (intro impI, elim conjE)
    assume h: "is_package_type t" "map_of (package_emission_factors self) t = None"
      "map_of (package_emission_factors self) Inductor_PKG_0805 = None"
      and ef: "package_emission_factors self = (kfirst, f) # rest"
    show "InductorModel_get_carbon self n t None =
            Inr \<lparr>amount = qscale f n, source = INDUCTOR\<rparr>"
      using h unfolding InductorModel_get_carbon_def ef get_or_first_Cons
      by (simp add: dict_in_def del: map_of.simps)
  qed
  have d: "InductorModel_get_carbon self n u (Some x) =
     (if \<not> check x kg then Inl AssertionError
      else case weight_based_factor self of
             None \<Rightarrow> Inr \<lparr>amount = qscale kg 0, source = INDUCTOR\<rparr>
           | Some wbf \<Rightarrow> Inr \<lparr>amount = qscale (qmul x wbf) n, source = INDUCTOR\<rparr>)" for u
    by (simp add: InductorModel_get_carbon_def)
  have e: "InductorModel_get_carbon self n t (Some x) =
           InductorModel_get_carbon self n t' (Some x)"
    by (simp only: d)
  show ?thesis
    by (intro conjI) (rule a, rule b, rule c, rule d, rule e)
qed

theorem Inductor_mode_selection_witness:
  "InductorModel_init example_inductor_doc =
     Inr \<lparr>weight_based_factor = Some (dimensionless 15),
          package_emission_factors =
            [(Inductor_PKG_0402, mass_kg (3 / 10000)), (Inductor_PKG_0805, mass_kg (7 / 10000)),
             (Inductor_GENERIC, mass_kg (7 / 10000))]\<rparr> \<and>
   is_package_type Inductor_PKG_0402 \<and>
   InductorModel_get_carbon
     \<lparr>weight_based_factor = Some (dimensionless 15),
      package_emission_factors =
        [(Inductor_PKG_0402, mass_kg (3 / 10000)), (Inductor_PKG_0805, mass_kg (7 / 10000)),
         (Inductor_GENERIC, mass_kg (7 / 10000))]\<rparr> 5 Inductor_PKG_0402 None =
     Inr \<lparr>amount = mass_kg (15 / 10000), source = INDUCTOR\<rparr> \<and>
   is_package_type Inductor_PKG_0603 \<and>
   InductorModel_get_carbon
     \<lparr>weight_based_factor = Some (dimensionless 15),
      package_emission_factors =
        [(Inductor_PKG_0402, mass_kg (3 / 10000)), (Inductor_PKG_0805, mass_kg (7 / 10000)),
         (Inductor_GENERIC, mass_kg (7 / 10000))]\<rparr> 5 Inductor_PKG_0603 None =
     Inr \<lparr>amount = mass_kg (35 / 10000), source = INDUCTOR\<rparr> \<and>
   InductorModel_get_carbon
     \<lparr>weight_based_factor = Some (dimensionless 15),
      package_emission_factors =
        [(Inductor_PKG_0402, mass_kg (3 / 10000)), (Inductor_PKG_0805, mass_kg (7 / 10000)),
         (Inductor_GENERIC, mass_kg (7 / 10000))]\<rparr> 5 Inductor_PKG_0402
     (Some (mass_kg (2 / 1000))) =
     Inr \<lparr>amount = mass_kg (150 / 1000), source = INDUCTOR\<rparr> \<and>
   InductorModel_init example_inductor_package_doc =
     Inr \<lparr>weight_based_factor = None,
          package_emission_factors = [(Inductor_PKG_0402, mass_kg (3 / 10000))]\<rparr> \<and>
   InductorModel_get_carbon
     \<lparr>weight_based_factor = None,
      package_emission_factors = [(Inductor_PKG_0402, mass_kg (3 / 10000))]\<rparr>
     5 Inductor_GENERIC None =
     Inr \<lparr>amount = mass_kg (15 / 10000), source = INDUCTOR\<rparr>"
  using
    Inductor_mode_selection [where n = 5 and t = Inductor_PKG_0402
      and f = "mass_kg (3 / 10000)" and x = "mass_kg (2 / 1000)"
      and self = "\<lparr>weight_based_factor = Some (dimensionless 15),
        package_emission_factors =
          [(Inductor_PKG_0402, mass_kg (3 / 10000)), (Inductor_PKG_0805, mass_kg (7 / 10000)),
           (Inductor_GENERIC, mass_kg (7 / 10000))]\<rparr>"]
    Inductor_mode_selection [where n = 5 and t = Inductor_PKG_0603
      and f = "mass_kg (7 / 10000)"
      and self = "\<lparr>weight_based_factor = Some (dimensionless 15),
        package_emission_factors =
          [(Inductor_PKG_0402, mass_kg (3 / 10000)), (Inductor_PKG_0805, mass_kg (7 / 10000)),
           (Inductor_GENERIC, mass_kg (7 / 10000))]\<rparr>"]
    Inductor_mode_selection [where n = 5 and t = Inductor_GENERIC
      and f = "mass_kg (3 / 10000)" and kfirst = Inductor_PKG_0402 and rest = "[]"
      and self = "\<lparr>weight_based_factor = None,
        package_emission_factors = [(Inductor_PKG_0402, mass_kg (3 / 10000))]\<rparr>"]
  by (simp add: example_inductor_doc_def example_inductor_package_doc_def
        unit_defs
        eval_defs InductorModel_init_def
        Inductor_load_step_def InductorType_of_def is_package_type_def)

text \<open>
  C2, as stated, fails for a supplied weight that is not a mass (the call aborts on its
  assertion) and for an instance with no weight-based factor (the call returns zero kg).
\<close>

theorem Inductor_weight_mode_counterexample:
  "InductorModel_init example_inductor_doc =
     Inr \<lparr>weight_based_factor = Some (dimensionless 15),
          package_emission_factors =
            [(Inductor_PKG_0402, mass_kg (3 / 10000)), (Inductor_PKG_0805, mass_kg (7 / 10000)),
             (Inductor_GENERIC, mass_kg (7 / 10000))]\<rparr> \<and>
   InductorModel_get_carbon
     \<lparr>weight_based_factor = Some (dimensionless 15),
      package_emission_factors =
        [(Inductor_PKG_0402, mass_kg (3 / 10000)), (Inductor_PKG_0805, mass_kg (7 / 10000)),
         (Inductor_GENERIC, mass_kg (7 / 10000))]\<rparr> 5 Inductor_PKG_0402
     (Some (length_mm 5)) = Inl AssertionError \<and>
   InductorModel_init example_inductor_package_doc =
     Inr \<lparr>weight_based_factor = None,
          package_emission_factors = [(Inductor_PKG_0402, mass_kg (3 / 10000))]\<rparr> \<and>
   InductorModel_get_carbon
     \<lparr>weight_based_factor = None,
      package_emission_factors = [(Inductor_PKG_0402, mass_kg (3 / 10000))]\<rparr>
     5 Inductor_PKG_0402 (Some (mass_kg (2 / 1000))) =
     Inr \<lparr>amount = mass_kg 0, source = INDUCTOR\<rparr>"
  by (simp add: example_inductor_doc_def example_inductor_package_doc_def
        unit_defs
        eval_defs InductorModel_init_def
        Inductor_load_step_def InductorType_of_def is_package_type_def
        InductorModel_get_carbon_def)

subsection \<open>Construction: when a missing default is fatal\<close>

lemma ActiveType_of_generic:
  "ActiveType_of k = Some Active_GENERIC \<longleftrightarrow> k = YStr ''generic''"
  "ActiveType_of k = Some Active_ACTIVE_GENERIC \<longleftrightarrow> k = YStr ''active_generic''"
  by (auto simp: ActiveType_of_def)

lemma DiodeType_of_generic:
  "DiodeType_of k = Some Diode_GENERIC \<longleftrightarrow> k = YStr ''generic''"
  "DiodeType_of k = Some Diode_GLASS_SMD \<longleftrightarrow> k = YStr ''glass_smd''"
  by (auto simp: DiodeType_of_def)

lemma OtherType_of_generic:
  "OtherType_of k = Some Other_GENERIC \<longleftrightarrow> k = YStr ''generic''"
  by (auto simp: OtherType_of_def)

lemma SwitchType_of_generic:
  "SwitchType_of k = Some Switch_GENERIC \<longleftrightarrow> k = YStr ''generic''"
  by (auto simp: SwitchType_of_def)

lemma ConnectorType_of_required:
  "ConnectorType_of k = Some Connector_PERIPHERAL \<longleftrightarrow> k = YStr ''peripheral''"
  "ConnectorType_of k = Some Connector_PCI \<longleftrightarrow> k = YStr ''pci''"
  by (auto simp: ConnectorType_of_def)

lemma ConnectorModel_init_required:
  "ConnectorModel_init d = Inr m \<Longrightarrow>
     dict_in Connector_PERIPHERAL (connector_emission_factors m) \<and>
     dict_in Connector_PCI (connector_emission_factors m)"
  by (auto simp: ConnectorModel_init_def Let_def split: if_splits)

lemma load_step_Nil:
  "load_step enum d kv = [] \<longleftrightarrow> d = [] \<and> enum (fst kv) = None"
  by (cases "enum (fst kv)") (auto simp: load_step_def dict_set_not_Nil)

lemma foldl_load_step_Nil:
  "foldl (load_step enum) d0 doc = [] \<longleftrightarrow> d0 = [] \<and> (\<forall>k \<in> fst ` set doc. enum k = None)"
proof (induction doc arbitrary: d0)
  case Nil
  show ?case by simp
next
  case (Cons kv doc)
  show ?case
    by (auto simp: Cons.IH load_step_Nil)
qed

lemma ActiveModel_init_fatal_iff:
  "ActiveModel_init d = Inl SystemExit \<longleftrightarrow>
     YStr ''generic'' \<notin> fst ` set d \<and> YStr ''active_generic'' \<notin> fst ` set d"
proof -
  have g: "dict_in Active_GENERIC (load_factors ActiveType_of d) \<longleftrightarrow>
             YStr ''generic'' \<in> fst ` set d"
    by (auto simp: dict_in_load_factors ActiveType_of_generic)
  have ag: "map_of (load_factors ActiveType_of d) Active_ACTIVE_GENERIC = None \<longleftrightarrow>
              YStr ''active_generic'' \<notin> fst ` set d"
    using dict_in_load_factors [of Active_ACTIVE_GENERIC ActiveType_of d]
    by (auto simp: dict_in_def ActiveType_of_generic)
  show ?thesis
    using ag by (auto simp: ActiveModel_init_def Let_def g split: option.splits)
qed

lemma DiodeModel_init_fatal_iff:
  "DiodeModel_init d = Inl SystemExit \<longleftrightarrow>
     YStr ''generic'' \<notin> fst ` set d \<and> YStr ''glass_smd'' \<notin> fst ` set d"
proof -
  have g: "dict_in Diode_GENERIC (load_factors DiodeType_of d) \<longleftrightarrow>
             YStr ''generic'' \<in> fst ` set d"
    by (auto simp: dict_in_load_factors DiodeType_of_generic)
  have gs: "map_of (load_factors DiodeType_of d) Diode_GLASS_SMD = None \<longleftrightarrow>
              YStr ''glass_smd'' \<notin> fst ` set d"
    using dict_in_load_factors [of Diode_GLASS_SMD DiodeType_of d]
    by (auto simp: dict_in_def DiodeType_of_generic)
  show ?thesis
    using gs by (auto simp: DiodeModel_init_def Let_def g split: option.splits)
qed

lemma OtherModel_init_fatal_iff:
  "OtherModel_init d = Inl SystemExit \<longleftrightarrow> YStr ''generic'' \<notin> fst ` set d"
proof -
  have "dict_in Other_GENERIC (load_factors OtherType_of d) \<longleftrightarrow>
          YStr ''generic'' \<in> fst ` set d"
    by (auto simp: dict_in_load_factors OtherType_of_generic)
  then show ?thesis
    by (auto simp: OtherModel_init_def Let_def)
qed

lemma SwitchModel_init_fatal_iff:
  "SwitchModel_init d = Inl SystemExit \<longleftrightarrow> YStr ''generic'' \<notin> fst ` set d"
proof -
  have "dict_in Switch_GENERIC (load_factors SwitchType_of d) \<longleftrightarrow>
          YStr ''generic'' \<in> fst ` set d"
    by (auto simp: dict_in_load_factors SwitchType_of_generic)
  then show ?thesis
    by (auto simp: SwitchModel_init_def Let_def)
qed

lemma ConnectorModel_init_fatal_iff:
  "ConnectorModel_init d = Inl SystemExit \<longleftrightarrow>
     YStr ''peripheral'' \<notin> fst ` set d \<or> YStr ''pci'' \<notin> fst ` set d"
proof -
  have p: "dict_in Connector_PERIPHERAL (load_factors ConnectorType_of d) \<longleftrightarrow>
             YStr ''peripheral'' \<in> fst ` set d"
    by (auto simp: dict_in_load_factors ConnectorType_of_required)
  have c: "dict_in Connector_PCI (load_factors ConnectorType_of d) \<longleftrightarrow>
             YStr ''pci'' \<in> fst ` set d"
    by (auto simp: dict_in_load_factors ConnectorType_of_required)
  show ?thesis
    by (auto simp: ConnectorModel_init_def Let_def p c)
qed

lemma ResistorModel_init_fatal_iff:
  "ResistorModel_init d = Inl SystemExit \<longleftrightarrow> (\<forall>k \<in> fst ` set d. ResistorType_of k = None)"
proof -
  have "load_factors ResistorType_of d = [] \<longleftrightarrow> (\<forall>k \<in> fst ` set d. ResistorType_of k = None)"
    by (simp add: load_factors_def foldl_load_step_Nil)
  then show ?thesis
    by (auto simp: ResistorModel_init_def Let_def split: option.splits)
qed

lemma InductorModel_init_total: "\<exists>m. InductorModel_init d = Inr m"
  by (simp add: InductorModel_init_def Let_def split: option.split)

lemma CapacitorModel_init_total: "\<exists>m. CapacitorModel_init ci d = Inr m"
  by (simp add: CapacitorModel_init_def Let_def)

lemma PCB_load_step_no_exit: "PCB_load_step self kv \<noteq> Inl SystemExit"
  by (auto simp: PCB_load_step_def units_def Let_def split: yaml_value.splits)

lemma PCB_load_no_exit: "PCB_load self d \<noteq> Inl SystemExit"
proof (induction d arbitrary: self)
  case Nil
  show ?case by simp
next
  case (Cons kv d)
  show ?case
    using PCB_load_step_no_exit [of self kv] Cons.IH
    by (cases "PCB_load_step self kv") auto
qed

lemma PCBModel_init_no_exit: "PCBModel_init d \<noteq> Inl SystemExit"
  using PCB_load_no_exit [of _ d]
  by (auto simp: PCBModel_init_def split: sum.splits)

text \<open>
  C5, as stated, fails for the models that never check for a default at construction: the
  Inductor and Capacitor constructors return an instance for a document with neither a
  generic entry nor any entry a generic could be derived from, and so does the Resistor
  constructor, which only asks for a table that is not empty.
\<close>

theorem construction_without_generic_counterexample:
  "InductorModel_init example_inductor_package_doc =
     Inr \<lparr>weight_based_factor = None,
          package_emission_factors = [(Inductor_PKG_0402, mass_kg (3 / 10000))]\<rparr> \<and>
   map_of [(Inductor_PKG_0402, mass_kg (3 / 10000))] Inductor_GENERIC = None \<and>
   map_of [(Inductor_PKG_0402, mass_kg (3 / 10000))] Inductor_PKG_0805 = None \<and>
   CapacitorModel_init example_ci_model example_capacitor_doc =
     Inr \<lparr>capacitor_model = [(Capacitor_MLCC, MJ_per_kg 36)],
          package_model = [(Capacitor_PKG_0402, mass_kg (4 / 10000))],
          ci_model = example_ci_model\<rparr> \<and>
   map_of [(Capacitor_MLCC, MJ_per_kg 36)] Capacitor_GENERIC = None \<and>
   map_of [(Capacitor_PKG_0402, mass_kg (4 / 10000))] Capacitor_GENERIC = None \<and>
   ResistorModel_init example_resistor_doc_0402_only =
     Inr \<lparr>resistor_emission_factors = [(Resistor_PKG_0402, mass_kg (2 / 10000))]\<rparr> \<and>
   map_of [(Resistor_PKG_0402, mass_kg (2 / 10000))] Resistor_GENERIC = None \<and>
   map_of [(Resistor_PKG_0402, mass_kg (2 / 10000))] Resistor_PKG_0805 = None"
  by (simp add: example_inductor_package_doc_def example_capacitor_doc_def
        example_resistor_doc_0402_only_def unit_defs
        eval_defs InductorModel_init_def
        Inductor_load_step_def InductorType_of_def CapacitorModel_init_def
        Capacitor_load_step_def CapacitorType_of_def ResistorModel_init_def
        ResistorType_of_def)

lemma ResistorModel_instance_without_default:
  "\<exists>d m. ResistorModel_init d = Inr m \<and>
          \<not> dict_in Resistor_GENERIC (resistor_emission_factors m) \<and>
          \<not> dict_in Resistor_PKG_0805 (resistor_emission_factors m)"
proof (intro exI conjI)
  show "ResistorModel_init example_resistor_doc_0402_only =
          Inr \<lparr>resistor_emission_factors = [(Resistor_PKG_0402, mass_kg (2 / 10000))]\<rparr>"
    by (simp add: example_resistor_doc_0402_only_def eval_defs ResistorModel_init_def
          ResistorType_of_def)
qed (simp_all add: dict_in_def)

text \<open>
  C5 (as amended). Construction is fatal (the process exits) for Active, Diode, Other and
  Switch exactly when the document has no \<open>generic\<close> key and, for Active and Diode, no
  key of the member that stands in for it (\<open>active_generic\<close>, \<open>glass_smd\<close>); for
  Connector exactly when \<open>peripheral\<close> or \<open>pci\<close> is missing; for Resistor exactly when
  no key of the document is a resistor type. An instance of the first five always holds
  its default entry; a Resistor instance holds a table that is not empty, and there are
  Resistor instances with neither a GENERIC nor a 0805 entry. The Inductor and Capacitor
  constructors always return an instance, and the PCB constructor never exits: these
  three make no check for a default.
\<close>

theorem construction_default_policy:
  "(ActiveModel_init d_active = Inl SystemExit \<longleftrightarrow>
      YStr ''generic'' \<notin> fst ` set d_active \<and>
      YStr ''active_generic'' \<notin> fst ` set d_active) \<and>
   (ActiveModel_init d_active = Inr m_active \<longrightarrow>
      dict_in Active_GENERIC (active_emission_factors m_active)) \<and>
   (DiodeModel_init d_diode = Inl SystemExit \<longleftrightarrow>
      YStr ''generic'' \<notin> fst ` set d_diode \<and> YStr ''glass_smd'' \<notin> fst ` set d_diode) \<and>
   (DiodeModel_init d_diode = Inr m_diode \<longrightarrow>
      dict_in Diode_GENERIC (diode_emission_factors m_diode)) \<and>
   (OtherModel_init d_other = Inl SystemExit \<longleftrightarrow> YStr ''generic'' \<notin> fst ` set d_other) \<and>
   (OtherModel_init d_other = Inr m_other \<longrightarrow>
      dict_in Other_GENERIC (other_emission_factors m_other)) \<and>
   (SwitchModel_init d_switch = Inl SystemExit \<longleftrightarrow>
      YStr ''generic'' \<notin> fst ` set d_switch) \<and>
   (SwitchModel_init d_switch = Inr m_switch \<longrightarrow>
      dict_in Switch_GENERIC (switch_emission_factors m_switch)) \<and>
   (ConnectorModel_init d_connector = Inl SystemExit \<longleftrightarrow>
      YStr ''peripheral'' \<notin> fst ` set d_connector \<or>
      YStr ''pci'' \<notin> fst ` set d_connector) \<and>
   (ConnectorModel_init d_connector = Inr m_connector \<longrightarrow>
      dict_in Connector_PERIPHERAL (connector_emission_factors m_connector) \<and>
      dict_in Connector_PCI (connector_emission_factors m_connector)) \<and>
   (ResistorModel_init d_resistor = Inl SystemExit \<longleftrightarrow>
      (\<forall>k \<in> fst ` set d_resistor. ResistorType_of k = None)) \<and>
   (ResistorModel_init d_resistor = Inr m_resistor \<longrightarrow>
      resistor_emission_factors m_resistor \<noteq> []) \<and>
   (\<exists>d m. ResistorModel_init d = Inr m \<and>
           \<not> dict_in Resistor_GENERIC (resistor_emission_factors m) \<and>
           \<not> dict_in Resistor_PKG_0805 (resistor_emission_factors m)) \<and>
   (\<exists>m. InductorModel_init d_inductor = Inr m) \<and>
   (\<exists>m. CapacitorModel_init loaded_ci_model d_capacitor = Inr m) \<and>
   PCBModel_init d_pcb \<noteq> Inl SystemExit"
proof (intro conjI)
  show "ActiveModel_init d_active = Inl SystemExit \<longleftrightarrow>
          YStr ''generic'' \<notin> fst ` set d_active \<and>
          YStr ''active_generic'' \<notin> fst ` set d_active"
    by (rule ActiveModel_init_fatal_iff)
  show "DiodeModel_init d_diode = Inl SystemExit \<longleftrightarrow>
          YStr ''generic'' \<notin> fst ` set d_diode \<and> YStr ''glass_smd'' \<notin> fst ` set d_diode"
    by (rule DiodeModel_init_fatal_iff)
  show "OtherModel_init d_other = Inl SystemExit \<longleftrightarrow> YStr ''generic'' \<notin> fst ` set d_other"
    by (rule OtherModel_init_fatal_iff)
  show "SwitchModel_init d_switch = Inl SystemExit \<longleftrightarrow>
          YStr ''generic'' \<notin> fst ` set d_switch"
    by (rule SwitchModel_init_fatal_iff)
  show "ConnectorModel_init d_connector = Inl SystemExit \<longleftrightarrow>
          YStr ''peripheral'' \<notin> fst ` set d_connector \<or>
          YStr ''pci'' \<notin> fst ` set d_connector"
    by (rule ConnectorModel_init_fatal_iff)
  show "ResistorModel_init d_resistor = Inl SystemExit \<longleftrightarrow>
          (\<forall>k \<in> fst ` set d_resistor. ResistorType_of k = None)"
    by (rule ResistorModel_init_fatal_iff)
  show "\<exists>d m. ResistorModel_init d = Inr m \<and>
          \<not> dict_in Resistor_GENERIC (resistor_emission_factors m) \<and>
          \<not> dict_in Resistor_PKG_0805 (resistor_emission_factors m)"
    by (rule ResistorModel_instance_without_default)
  show "\<exists>m. InductorModel_init d_inductor = Inr m"
    by (rule InductorModel_init_total)
  show "\<exists>m. CapacitorModel_init loaded_ci_model d_capacitor = Inr m"
    by (rule CapacitorModel_init_total)
  show "PCBModel_init d_pcb \<noteq> Inl SystemExit"
    by (rule PCBModel_init_no_exit)
qed (simp_all add: ActiveModel_init_generic DiodeModel_init_generic OtherModel_init_generic
       SwitchModel_init_generic ConnectorModel_init_required ResistorModel_init_not_Nil)

theorem construction_default_policy_witness:
  "YStr ''generic'' \<notin> fst ` set example_connector_doc \<and>
   YStr ''active_generic'' \<notin> fst ` set example_connector_doc \<and>
   YStr ''glass_smd'' \<notin> fst ` set example_connector_doc \<and>
   YStr ''peripheral'' \<notin> fst ` set example_other_doc \<and>
   fst ` set example_connector_doc = {YStr ''pci'', YStr ''peripheral''} \<and>
   ResistorType_of (YStr ''pci'') = None \<and>
   ResistorType_of (YStr ''peripheral'') = None \<and>
   ActiveModel_init example_connector_doc = Inl SystemExit \<and>
   DiodeModel_init example_connector_doc = Inl SystemExit \<and>
   OtherModel_init example_connector_doc = Inl SystemExit \<and>
   SwitchModel_init example_connector_doc = Inl SystemExit \<and>
   ConnectorModel_init example_other_doc = Inl SystemExit \<and>
   ResistorModel_init example_connector_doc = Inl SystemExit \<and>
   ActiveModel_init example_active_doc =
     Inr \<lparr>active_emission_factors =
            [(Active_TRANSISTOR_BJT, dimensionless 50), (Active_ACTIVE_GENERIC, dimensionless 30),
             (Active_GENERIC, dimensionless 30)]\<rparr> \<and>
   DiodeModel_init example_diode_doc =
     Inr \<lparr>diode_emission_factors =
            [(Diode_GLASS_SMD, dimensionless 20), (Diode_LED, dimensionless 40),
             (Diode_GENERIC, dimensionless 20)]\<rparr> \<and>
   OtherModel_init example_other_doc =
     Inr \<lparr>other_emission_factors = [(Other_GENERIC, dimensionless 10)]\<rparr> \<and>
   SwitchModel_init example_switch_doc =
     Inr \<lparr>switch_emission_factors = [(Switch_GENERIC, dimensionless 6)]\<rparr> \<and>
   ConnectorModel_init example_connector_doc =
     Inr \<lparr>connector_emission_factors =
            [(Connector_PCI, dimensionless 112), (Connector_PERIPHERAL, dimensionless (938 / 100))]\<rparr> \<and>
   ResistorModel_init example_resistor_doc_no_0805 =
     Inr \<lparr>resistor_emission_factors =
            [(Resistor_PKG_0402, mass_kg (2 / 10000)), (Resistor_GENERIC, mass_kg (9 / 10000))]\<rparr> \<and>
   [(Resistor_PKG_0402, mass_kg (2 / 10000)), (Resistor_GENERIC, mass_kg (9 / 10000))] \<noteq> [] \<and>
   dict_in Active_GENERIC
     [(Active_TRANSISTOR_BJT, dimensionless 50), (Active_ACTIVE_GENERIC, dimensionless 30),
      (Active_GENERIC, dimensionless 30)] \<and>
   dict_in Connector_PCI
     [(Connector_PCI, dimensionless 112), (Connector_PERIPHERAL, dimensionless (938 / 100))]"
  using
    construction_default_policy [where d_active = example_connector_doc
      and d_diode = example_connector_doc and d_other = example_connector_doc
      and d_switch = example_connector_doc and d_connector = example_other_doc
      and d_resistor = example_connector_doc]
    construction_default_policy [where d_active = example_active_doc
      and m_active = "\<lparr>active_emission_factors =
            [(Active_TRANSISTOR_BJT, dimensionless 50), (Active_ACTIVE_GENERIC, dimensionless 30),
             (Active_GENERIC, dimensionless 30)]\<rparr>"
      and d_diode = example_diode_doc
      and m_diode = "\<lparr>diode_emission_factors =
            [(Diode_GLASS_SMD, dimensionless 20), (Diode_LED, dimensionless 40),
             (Diode_GENERIC, dimensionless 20)]\<rparr>"
      and d_other = example_other_doc
      and m_other = "\<lparr>other_emission_factors = [(Other_GENERIC, dimensionless 10)]\<rparr>"
      and d_switch = example_switch_doc
      and m_switch = "\<lparr>switch_emission_factors = [(Switch_GENERIC, dimensionless 6)]\<rparr>"
      and d_connector = example_connector_doc
      and m_connector = "\<lparr>connector_emission_factors =
            [(Connector_PCI, dimensionless 112), (Connector_PERIPHERAL, dimensionless (938 / 100))]\<rparr>"
      and d_resistor = example_resistor_doc_no_0805
      and m_resistor = "\<lparr>resistor_emission_factors =
            [(Resistor_PKG_0402, mass_kg (2 / 10000)), (Resistor_GENERIC, mass_kg (9 / 10000))]\<rparr>"]
  by (simp add: example_active_doc_def example_connector_doc_def
        example_diode_doc_def example_other_doc_def example_switch_doc_def example_resistor_doc_no_0805_def
        unit_defs
        eval_defs ActiveModel_init_def
        ActiveType_of_def ConnectorModel_init_def ConnectorType_of_def DiodeModel_init_def
        DiodeType_of_def OtherModel_init_def OtherType_of_def SwitchModel_init_def
        SwitchType_of_def ResistorModel_init_def ResistorType_of_def)

subsection \<open>The dimension assertions of the other models\<close>

lemma wrong_dimension_asserted:
  assumes "\<not> check w kg" and "\<not> check a mm2"
  shows "ActiveModel_get_carbon m_active w t_active n = Inl AssertionError"
    and "ConnectorModel_get_carbon m_connector w t_connector n = Inl AssertionError"
    and "DiodeModel_get_carbon m_diode w t_diode n = Inl AssertionError"
    and "OtherModel_get_carbon m_other w t_other n = Inl AssertionError"
    and "SwitchModel_get_carbon m_switch w t_switch n = Inl AssertionError"
    and "InductorModel_get_carbon m_inductor n t_inductor (Some w) = Inl AssertionError"
    and "PCBModel_get_carbon m_pcb a layers thickness = Inl AssertionError"
  using assms
  by (simp_all add: ActiveModel_get_carbon_def ConnectorModel_get_carbon_def
        DiodeModel_get_carbon_def OtherModel_get_carbon_def SwitchModel_get_carbon_def
        InductorModel_get_carbon_def PCBModel_get_carbon_def)


end
